theory Spec2Isabelle
  imports Main "HOL-Library.Multiset"
begin

section \<open>EBA XBRL filing rules: the rule predicates of \<^verbatim>\<open>eba_validation.py\<close>\<close>

text \<open>
  The script is a set of rule predicates run by a host XBRL engine after it has validated
  an instance document. Every predicate reads the host's instance model and appends
  findings to the job's error log. The host's objects are modelled as records holding
  the attributes the script reads; the error log is a list that is passed through every
  predicate and returned; a Python exception is the left injection of the result, with
  the log as it stood when the exception was raised.
\<close>

subsection \<open>Python values and exceptions\<close>

datatype py_error = StopIteration | NameError | ValueError | TypeError | AttributeError | KeyError

type_synonym 'a result = "(py_error \<times> 'a) + 'a"

datatype py_value = PyNone | PyBool bool | PyInt int | PyStr string

text \<open>Python's \<^verbatim>\<open>x == True\<close>: the integer 1 compares equal to \<^verbatim>\<open>True\<close>.\<close>

definition py_eq_True :: "py_value option \<Rightarrow> bool" where
  "py_eq_True v = (v = Some (PyBool True) \<or> v = Some (PyInt 1))"

text \<open>Truth value of a Python value: \<^verbatim>\<open>None\<close>, \<^verbatim>\<open>False\<close>, 0 and the empty string are false.\<close>

definition py_truthy :: "py_value \<Rightarrow> bool" where
  "py_truthy v = (case v of PyNone \<Rightarrow> False | PyBool b \<Rightarrow> b | PyInt i \<Rightarrow> i \<noteq> 0 | PyStr s \<Rightarrow> s \<noteq> [])"

definition py_upper :: "string \<Rightarrow> string" where
  "py_upper s = map (\<lambda>c. let n = (of_char c :: nat) in if 97 \<le> n \<and> n \<le> 122 then char_of (n - 32) else c) s"

definition py_startswith :: "string \<Rightarrow> string \<Rightarrow> bool" where
  "py_startswith s p = (take (length p) s = p)"

text \<open>\<^verbatim>\<open>d.setdefault(k, v)\<close>: the dictionary after the call, and the value returned.\<close>

definition setdefault :: "('k \<rightharpoonup> 'v) \<Rightarrow> 'k \<Rightarrow> 'v \<Rightarrow> ('k \<rightharpoonup> 'v) \<times> 'v" where
  "setdefault d k v = (case d k of None \<Rightarrow> (d(k \<mapsto> v), v) | Some w \<Rightarrow> (d, w))"

subsection \<open>Python strings and \<^verbatim>\<open>int\<close>\<close>

text \<open>
  A Python \<^verbatim>\<open>str\<close> is a sequence of Unicode code points, and \<^verbatim>\<open>len\<close> counts
  code points. The strings whose length or numeric value the script reads (the
  \<^verbatim>\<open>id\<close> of a context, the value of a string fact, the value of a script parameter)
  are lists of code points; \<open>ascii\<close> gives the code points of an ASCII literal.
\<close>

type_synonym py_str = "nat list"

definition ascii :: "string \<Rightarrow> py_str" where
  "ascii s = map of_char s"

text \<open>
  \<^verbatim>\<open>int(s)\<close> on a \<^verbatim>\<open>str\<close>, as CPython 3.11 computes it (Unicode 14.0.0, default
  limit on the number of digits). Every code point from 127 on is first replaced: a
  Unicode space by a blank, a Unicode decimal digit by its ASCII digit, anything else
  by \<^verbatim>\<open>?\<close>. The resulting ASCII text is then read: the blanks of C's \<^verbatim>\<open>isspace\<close>
  (9 to 13 and 32, not 28 to 31), an optional sign, decimal digits with single
  underscores allowed between two digits, blanks again, and the end. Anything else
  raises \<^verbatim>\<open>ValueError\<close>, and so do more than 4300 digits.
\<close>

definition c_isspace :: "nat \<Rightarrow> bool" where
  "c_isspace c = (c \<in> set [9, 10, 11, 12, 13, 32])"

text \<open>The code points from 127 on that are spaces (\<^verbatim>\<open>str.isspace\<close>).\<close>

definition unicode_spaces :: "nat list" where
  "unicode_spaces =
     [0x0085, 0x00A0, 0x1680, 0x2000, 0x2001, 0x2002, 0x2003, 0x2004,
      0x2005, 0x2006, 0x2007, 0x2008, 0x2009, 0x200A, 0x2028, 0x2029,
      0x202F, 0x205F, 0x3000]"

text \<open>
  The decimal digits of Unicode outside ASCII come in runs of ten, zero to nine; these
  are the code points of the zeros.
\<close>

definition unicode_decimal_zeros :: "nat list" where
  "unicode_decimal_zeros =
     [0x0660, 0x06F0, 0x07C0, 0x0966, 0x09E6, 0x0A66, 0x0AE6, 0x0B66,
      0x0BE6, 0x0C66, 0x0CE6, 0x0D66, 0x0DE6, 0x0E50, 0x0ED0, 0x0F20,
      0x1040, 0x1090, 0x17E0, 0x1810, 0x1946, 0x19D0, 0x1A80, 0x1A90,
      0x1B50, 0x1BB0, 0x1C40, 0x1C50, 0xA620, 0xA8D0, 0xA900, 0xA9D0,
      0xA9F0, 0xAA50, 0xABF0, 0xFF10, 0x104A0, 0x10D30, 0x11066, 0x110F0,
      0x11136, 0x111D0, 0x112F0, 0x11450, 0x114D0, 0x11650, 0x116C0, 0x11730,
      0x118E0, 0x11950, 0x11C50, 0x11D50, 0x11DA0, 0x16A60, 0x16AC0, 0x16B50,
      0x1D7CE, 0x1D7D8, 0x1D7E2, 0x1D7EC, 0x1D7F6, 0x1E140, 0x1E2F0, 0x1E950,
      0x1FBF0]"

definition unicode_todecimal :: "nat \<Rightarrow> nat option" where
  "unicode_todecimal c =
     map_option (\<lambda>z. c - z) (find (\<lambda>z. z \<le> c \<and> c < z + 10) unicode_decimal_zeros)"

definition to_ascii :: "nat \<Rightarrow> nat" where
  "to_ascii c =
     (if c < 127 then c
      else if c \<in> set unicode_spaces then 32
      else case unicode_todecimal c of Some d \<Rightarrow> 48 + d | None \<Rightarrow> 63)"

definition ascii_digit :: "nat \<Rightarrow> bool" where
  "ascii_digit c = (48 \<le> c \<and> c \<le> 57)"

text \<open>The digits after the first one: each is a digit, or an underscore and a digit.\<close>

fun more_digits :: "nat list \<Rightarrow> nat list option" where
  "more_digits [] = Some []"
| "more_digits [c] = (if ascii_digit c then Some [c - 48] else None)"
| "more_digits (c # d # ds) =
     (if c = 95 then
        (if ascii_digit d then map_option (Cons (d - 48)) (more_digits ds) else None)
      else if ascii_digit c then map_option (Cons (c - 48)) (more_digits (d # ds))
      else None)"

definition int_max_str_digits :: nat where
  "int_max_str_digits = 4300"

definition py_int :: "py_str \<Rightarrow> py_error + int" where
  "py_int s =
     (let t = dropWhile c_isspace (map to_ascii s);
          negative = (case t of [] \<Rightarrow> False | c # _ \<Rightarrow> c = 45);
          t = (case t of [] \<Rightarrow> [] | c # r \<Rightarrow> if c = 45 \<or> c = 43 then r else t);
          body = rev (dropWhile c_isspace (rev t))
      in case body of
           [] \<Rightarrow> Inl ValueError
         | c # r \<Rightarrow>
             if ascii_digit c then
               (case more_digits r of
                  None \<Rightarrow> Inl ValueError
                | Some ds \<Rightarrow>
                    let digits = (c - 48) # ds
                    in if length digits > int_max_str_digits then Inl ValueError
                       else
                         let n = foldl (\<lambda>a d. a * 10 + d) 0 digits
                         in Inr (if negative then - int n else int n))
             else Inl ValueError)"

text \<open>
  \<^verbatim>\<open>int(params.get(key, default))\<close>: script parameters are strings; the default is
  already an integer and \<^verbatim>\<open>int\<close> returns it unchanged.
\<close>

definition int_param :: "(string \<rightharpoonup> py_str) \<Rightarrow> string \<Rightarrow> int \<Rightarrow> py_error + int" where
  "int_param params key dflt = (case params key of None \<Rightarrow> Inr dflt | Some s \<Rightarrow> py_int s)"

subsection \<open>The XML document model of the host\<close>

type_synonym qname = "string \<times> string"

definition QName :: "string \<Rightarrow> string \<Rightarrow> qname" where
  "QName local_name namespace_name = (local_name, namespace_name)"

datatype schema_value = XsdQName (qname_prefix: "string option") | XsdString (string_value: py_str) | XsdOther

record attribute =
  attr_local_name :: string
  attr_namespace_name :: string
  attr_prefix :: "string option"
  attr_normalized_value :: string
  attr_schema_actual_value :: schema_value

text \<open>
  An element node. \<open>node_id\<close> stands for the identity of the host's node object: two
  nodes of one document differ even when their content is the same.
\<close>

datatype element = Element (node_id: nat) (elem_local_name: string) (elem_namespace_name: string)
  (elem_prefix: "string option") (elem_schema_actual_value: schema_value)
  (attributes: "attribute list") (namespace_attributes: "attribute list")
  (element_children: "element list")

definition find_attribute :: "element \<Rightarrow> qname \<Rightarrow> attribute option" where
  "find_attribute elem name =
     find (\<lambda>a. attr_local_name a = fst name \<and> attr_namespace_name a = snd name) (attributes elem)"

record xml_document =
  character_encoding_scheme :: string
  standalone :: "bool option"

subsection \<open>The document walker\<close>

text \<open>
  \<^verbatim>\<open>dfs\<close> is a generator over an explicit stack. One resumption pops the last element
  of the stack, yields it and extends the stack by its children: \<open>dfs_step\<close>. The
  sequence of all yields is \<open>dfs_loop\<close>; it is total because every step shrinks the
  stack's size.
\<close>

definition dfs_step :: "element list \<Rightarrow> (element \<times> element list) option" where
  "dfs_step stack =
     (if stack = [] then None
      else let elem = last stack; stack = butlast stack
           in Some (elem, stack @ element_children elem))"

lemma dfs_step_decreases:
  "dfs_step stack = Some (elem, stack') \<Longrightarrow> size_list size stack' < size_list size stack"
proof -
  assume a: "dfs_step stack = Some (elem, stack')"
  then have "stack \<noteq> []"
    by (auto simp: dfs_step_def split: if_splits)
  then obtain ys y where s: "stack = ys @ [y]"
    by (metis append_butlast_last_id)
  with a have "elem = y" "stack' = ys @ element_children y"
    by (auto simp: dfs_step_def Let_def)
  then show ?thesis
    using s by (cases y) simp
qed

function dfs_loop :: "element list \<Rightarrow> element list" where
  "dfs_loop stack =
     (case dfs_step stack of
        None \<Rightarrow> []
      | Some (elem, stack') \<Rightarrow> elem # dfs_loop stack')"
  by pat_completeness auto
termination
  by (relation "measure (size_list size)") (auto dest: dfs_step_decreases)

declare dfs_loop.simps [simp del]

definition dfs :: "element \<Rightarrow> element list" where
  "dfs elem = dfs_loop [elem]"

subsection \<open>The XBRL instance model of the host\<close>

record xbrl_concept =
  concept_name :: string
  concept_target_namespace :: string
  concept_is_item :: bool
  concept_is_numeric :: bool
  concept_is_monetary :: bool

definition concept_qname :: "xbrl_concept \<Rightarrow> qname" where
  "concept_qname c = QName (concept_name c) (concept_target_namespace c)"

record identifier_aspect_value =
  identifier_scheme :: string
  identifier_value :: string

record xbrl_entity =
  entity_identifier :: element
  entity_segment :: "element option"

text \<open>
  A date element of a period: its value, the value's \<^verbatim>\<open>tzinfo\<close> and the name of the
  schema type that validated it (\<^verbatim>\<open>element.member_type_definition.name\<close>).
\<close>

record period_date =
  date_value :: string
  date_tzinfo :: "string option"
  date_type_name :: string

datatype xbrl_period = Instant period_date | Duration period_date period_date | Forever element

definition period_instant :: "xbrl_period \<Rightarrow> period_date option" where
  "period_instant p = (case p of Instant d \<Rightarrow> Some d | _ \<Rightarrow> None)"

definition is_instant :: "xbrl_period \<Rightarrow> bool" where
  "is_instant p = (case p of Instant d \<Rightarrow> True | _ \<Rightarrow> False)"

definition is_forever :: "xbrl_period \<Rightarrow> bool" where
  "is_forever p = (case p of Forever e \<Rightarrow> True | _ \<Rightarrow> False)"

definition period_forever :: "xbrl_period \<Rightarrow> element option" where
  "period_forever p = (case p of Forever e \<Rightarrow> Some e | _ \<Rightarrow> None)"

datatype period_aspect_value = InstantValue string | DurationValue string string | ForeverValue

record xbrl_scenario =
  scenario_element :: element
  non_xdt_child_elements :: "element list"

text \<open>
  A context. \<open>dimension_aspect_values\<close> is the host's list of the dimension members of
  segment and scenario, by value, in the host's canonical order.
\<close>

record xbrl_context =
  context_id :: py_str
  context_element :: element
  context_entity :: xbrl_entity
  entity_identifier_aspect_value :: identifier_aspect_value
  context_period :: xbrl_period
  period_aspect_value :: period_aspect_value
  context_scenario :: "xbrl_scenario option"
  dimension_aspect_values :: "(qname \<times> qname) list"

text \<open>
  A unit's aspect value: its measures. The host's \<^verbatim>\<open>is_pure\<close>, \<^verbatim>\<open>is_monetary\<close> and
  \<^verbatim>\<open>iso4217_currency\<close> are read off the measures as XBRL 2.1 defines them.
\<close>

record unit_aspect_value =
  numerator_measures :: "qname list"
  denominator_measures :: "qname list"

definition is_pure :: "unit_aspect_value \<Rightarrow> bool" where
  "is_pure v = (numerator_measures v = [QName ''pure'' ''http://www.xbrl.org/2003/instance'']
                \<and> denominator_measures v = [])"

definition iso4217_currency :: "unit_aspect_value \<Rightarrow> string option" where
  "iso4217_currency v =
     (case (numerator_measures v, denominator_measures v) of
        ([m], []) \<Rightarrow> if snd m = ''http://www.xbrl.org/2003/iso4217'' then Some (fst m) else None
      | _ \<Rightarrow> None)"

definition is_monetary :: "unit_aspect_value \<Rightarrow> bool" where
  "is_monetary v = (iso4217_currency v \<noteq> None)"

record xbrl_unit =
  unit_id :: string
  unit_element :: element
  unit_aspect_value :: unit_aspect_value

record xbrl_fact =
  fact_element :: element
  fact_id :: "string option"
  fact_concept :: xbrl_concept
  fact_context :: xbrl_context
  fact_unit :: "xbrl_unit option"
  fact_xml_lang :: "string option"
  fact_precision :: py_value
  fact_xsi_nil :: bool
  fact_normalized_value :: string

record schema_ref =
  schema_ref_xlink_href :: string

record linkbase_ref =
  linkbase_ref_xlink_href :: string

record footnote =
  footnote_element :: element

record locator =
  loc_xlink_href :: string

record footnote_link =
  resources :: "footnote list"
  locators :: "locator list"

record xbrl_label =
  label_role :: string
  label_text :: string

record xbrl_table =
  table_labels :: "xbrl_label list"

record taxonomy_schema =
  schema_element :: element
  schema_target_namespace :: string

record xbrl_dts =
  tables :: "xbrl_table list"
  taxonomy_schemas :: "taxonomy_schema list"
  concepts :: "xbrl_concept list"

record xbrl_instance =
  uri :: string
  document :: xml_document
  document_element :: element
  dts :: xbrl_dts
  schema_refs :: "schema_ref list"
  linkbase_refs :: "linkbase_ref list"
  footnote_links :: "footnote_link list"
  contexts :: "xbrl_context list"
  units :: "xbrl_unit list"
  facts :: "xbrl_fact list"
  child_items :: "xbrl_fact list"

subsection \<open>Queries of the host's API\<close>

text \<open>
  The constraint set of a context or of a unit is its aspect-value signature: entity
  identifier, period and dimension members for a context, the measures for a unit. It
  holds values, not node identities, and leaves the \<^verbatim>\<open>id\<close> out.
\<close>

type_synonym context_constraint_set = "identifier_aspect_value \<times> period_aspect_value \<times> (qname \<times> qname) list"

definition ConstraintSet_context :: "xbrl_context \<Rightarrow> context_constraint_set" where
  "ConstraintSet_context c =
     (entity_identifier_aspect_value c, period_aspect_value c, dimension_aspect_values c)"

definition ConstraintSet_unit :: "xbrl_unit \<Rightarrow> unit_aspect_value" where
  "ConstraintSet_unit u = unit_aspect_value u"

text \<open>\<^verbatim>\<open>instance.facts.filter(x)\<close> for a context, a unit, a concept and a qualified name.\<close>

definition facts_filter_context :: "xbrl_instance \<Rightarrow> xbrl_context \<Rightarrow> xbrl_fact list" where
  "facts_filter_context inst c =
     filter (\<lambda>f. ConstraintSet_context (fact_context f) = ConstraintSet_context c) (facts inst)"

definition facts_filter_unit :: "xbrl_instance \<Rightarrow> xbrl_unit \<Rightarrow> xbrl_fact list" where
  "facts_filter_unit inst u =
     filter (\<lambda>f. map_option ConstraintSet_unit (fact_unit f) = Some (ConstraintSet_unit u)) (facts inst)"

definition facts_filter_concept :: "xbrl_instance \<Rightarrow> xbrl_concept \<Rightarrow> xbrl_fact list" where
  "facts_filter_concept inst c = filter (\<lambda>f. fact_concept f = c) (facts inst)"

definition facts_filter_qname :: "xbrl_instance \<Rightarrow> qname \<Rightarrow> xbrl_fact list" where
  "facts_filter_qname inst n = filter (\<lambda>f. concept_qname (fact_concept f) = n) (facts inst)"

text \<open>\<^verbatim>\<open>instance.facts.concept_aspect_values()\<close>: the concepts of the facts, each once.\<close>

definition concept_aspect_values :: "xbrl_instance \<Rightarrow> xbrl_concept list" where
  "concept_aspect_values inst = remdups (map fact_concept (facts inst))"

definition resolve_concept :: "xbrl_dts \<Rightarrow> qname \<Rightarrow> xbrl_concept option" where
  "resolve_concept d n = find (\<lambda>c. concept_qname c = n) (concepts d)"

definition labels :: "xbrl_table \<Rightarrow> string \<Rightarrow> xbrl_label list" where
  "labels table role = filter (\<lambda>l. label_role l = role) (table_labels table)"

subsection \<open>Findings and the error log\<close>

datatype severity = ERROR | WARNING | INFO | OTHER

text \<open>What a finding points at: its location and the values of its named parameters.\<close>

datatype obj = ObjNone | ObjStr string | ObjAttribute attribute | ObjElement element
  | ObjPeriod xbrl_period | ObjScenario xbrl_scenario | ObjContext xbrl_context
  | ObjUnit xbrl_unit | ObjFact xbrl_fact | ObjSchemaRef schema_ref
  | ObjLinkbaseRef linkbase_ref | ObjFootnote footnote

text \<open>
  \<^verbatim>\<open>xbrl.Error.create(message, location=, children=, severity=, **params)\<close>; the
  severity is \<open>ERROR\<close> when the call gives none.
\<close>

datatype xbrl_error = Error_create (error_message: string) (error_location: obj)
  (error_params: "(string \<times> obj) list") (error_children: "xbrl_error list")
  (error_severity: severity)

definition report :: "xbrl_error list \<Rightarrow> xbrl_error \<Rightarrow> xbrl_error list" where
  "report error_log e = error_log @ [e]"

record job =
  script_params :: "string \<rightharpoonup> py_str"
  options :: "string \<rightharpoonup> py_value"
  job_error_log :: "xbrl_error list"

subsection \<open>The texts of the findings\<close>

text \<open>
  The message of every finding, as the script writes it: \<open>msg_EBA_n\<close> is the message of
  the main error of rule n, \<open>detail_n\<close> that of a child error. Characters outside ASCII
  are given by their UTF-8 bytes.
\<close>

definition detail_1_4 :: string where
  "detail_1_4 =
     ''XBRL instance documents SHOULD NOT use the XML standalone declaration.''"

definition msg_EBA_1_4 :: string where
  "msg_EBA_1_4 =
     ''[EBA.1.4] Character encoding of XBRL instance documents.''"

definition detail_1_6_1 :: string where
  "detail_1_6_1 =
     ''The context referenced by the filing indicator elements MUST NOT contain xbrli:segment ''
       @ ''or xbrli:scenario elements.''"

definition msg_EBA_1_6 :: string where
  "msg_EBA_1_6 =
     ''[EBA.1.6] Filing indicators.''"

definition detail_1_6_2 :: string where
  "detail_1_6_2 =
     ''Reported XBRL instances MUST contain only one filing indicator element for a given ''
       @ ''reporting unit(''
       @ [CHR 0x22]
       @ ''template''
       @ [CHR 0x22]
       @ '').''"

definition msg_EBA_1_6_1 :: string where
  "msg_EBA_1_6_1 =
     ''[EBA.1.6.1] Multiple filing indicators for the same reporting unit.''"

definition detail_1_6_3 :: string where
  "detail_1_6_3 =
     ''The values of filing indicators MUST only be those given by the label resources with ''
       @ ''the role http://www.eurofiling.info/xbrl/role/filing-indicator-code applied to the ''
       @ ''relevant tables in the XBRL taxonomy4 for that reporting module (entry point). Filing ''
       @ ''indicator values must be formatted correctly (for example including any underscore ''
       @ ''characters).''"

definition msg_EBA_1_6_3 :: string where
  "msg_EBA_1_6_3 =
     ''[EBA.1.6.3] Filing indicator codes.''"

definition detail_1_13 :: string where
  "detail_1_13 =
     ''XBRL instance documents MUST use ''
       @ [CHR 0x22]
       @ ''UTF-8''
       @ [CHR 0x22]
       @ '' encoding. [GFM11, p. 11]''"

definition msg_EBA_1_13 :: string where
  "msg_EBA_1_13 =
     ''[EBA.1.13] Standalone Document Declaration.''"

definition detail_1_14 :: string where
  "detail_1_14 =
     ''@xsd:schemaLocation or @xsd:noNamespaceSchemaLocation MUST NOT be used.''"

definition msg_EBA_1_14 :: string where
  "msg_EBA_1_14 =
     ''[EBA.1.14] @xsd:schemaLocation and @xsd:noNamespaceSchemaLocation.''"

definition detail_1_15_1 :: string where
  "detail_1_15_1 =
     ''XBRL instance documents MUST NOT use the XInclude specification (xi:include element).''"

definition detail_1_15_2 :: string where
  "detail_1_15_2 =
     ''Hint: Disable XInclude support with the --xinclude=false option.''"

definition msg_EBA_1_15 :: string where
  "msg_EBA_1_15 =
     ''[EBA.1.15] XInclude.''"

definition detail_2_1 :: string where
  "detail_2_1 =
     ''The attribute @xml:base MUST NOT appear in any instance document. [EFM13, p. 6-7].''"

definition msg_EBA_2_1 :: string where
  "msg_EBA_2_1 =
     ''[EBA.2.1] The existence of {xml_base} is not permitted.''"

definition detail_2_2 :: string where
  "detail_2_2 =
     ''The link:schemaRef element in submitted instances MUST resolve to the full published ''
       @ ''entry point URL (absolute URL).''"

definition msg_EBA_2_2 :: string where
  "msg_EBA_2_2 =
     ''[EBA.2.2] The absolute URL has to be stated for the {schemaRef} element.''"

definition detail_2_3 :: string where
  "detail_2_3 =
     ''Any reported XBRL instance document MUST contain only one xbrli:xbrl/link:schemaRef ''
       @ ''element.''"

definition msg_EBA_2_3 :: string where
  "msg_EBA_2_3 =
     ''[EBA.2.3] Only one {schemaRef} element is allowed per instance document.''"

definition detail_2_4 :: string where
  "detail_2_4 =
     ''Reference from an instance to the taxonomy MUST only be by means of the link:schemaRef ''
       @ ''element. The element link:linkbaseRef MUST NOT be used in any instance document.''"

definition msg_EBA_2_4 :: string where
  "msg_EBA_2_4 =
     ''[EBA.2.4] The use of {linkbaseRef} element is not permitted.''"

definition detail_2_25 :: string where
  "detail_2_25 =
     ''Relevant business data MUST only be contained in contexts, units, schemaRef and facts. ''
       @ ''A footnote MUST not have any impact on the regulatory content of a report.''"

definition msg_EBA_2_25 :: string where
  "msg_EBA_2_25 =
     ''[EBA.2.25] XBRL {footnote} are ignored by EBA.''"

definition detail_2_6 :: string where
  "detail_2_6 =
     ''Semantics SHOULD NOT be expressed in the xbrli:context/@id attribute. The values of ''
       @ ''each @id attribute SHOULD be as short as possible.''"

definition msg_EBA_2_6 :: string where
  "msg_EBA_2_6 =
     ''[EBA.2.6] The length of the {id} attribute should be limited to the necessary ''
       @ ''characters.''"

definition detail_2_7_1 :: string where
  "detail_2_7_1 =
     ''Unused xbrli:context nodes SHOULD NOT be present in the instance. [FRIS04]''"

definition msg_EBA_2_7 :: string where
  "msg_EBA_2_7 =
     ''[EBA.2.7] No unused or duplicated {context} nodes.''"

definition detail_2_7_2 :: string where
  "detail_2_7_2 =
     ''An instance document SHOULD NOT contain duplicated context, unless required for ''
       @ ''technical reasons, e.g. to support XBRL streaming.''"

definition detail_2_7_3 :: string where
  "detail_2_7_3 =
     ''Context {context} is a duplicate of context {context2}''"

definition detail_2_9 :: string where
  "detail_2_9 =
     ''All xbrli:identifier content and @scheme attributes in an instance MUST be identical. ''
       @ ''[EFM13, p. 6-8]''"

definition msg_EBA_2_9 :: string where
  "msg_EBA_2_9 =
     ''[EBA.2.9] Single reporter per instance.''"

definition detail_2_10 :: string where
  "detail_2_10 =
     ''All xbrli:period date elements MUST be valid against the xs:date data type, and ''
       @ ''reported without a timezone. [GFM11, p. 16]''"

definition msg_EBA_2_10 :: string where
  "msg_EBA_2_10 =
     ''[EBA.2.10] The {period} date elements reported must be valid.''"

definition detail_2_11 :: string where
  "detail_2_11 =
     ''The element ''
       @ [CHR 0xE2, CHR 0x80, CHR 0x98]
       @ ''xbrli:forever''
       @ [CHR 0xE2, CHR 0x80, CHR 0x99]
       @ '' MUST NOT be used. [GFM11, p. 19]''"

definition msg_EBA_2_11 :: string where
  "msg_EBA_2_11 =
     ''[EBA.2.11] The existence of {forever} is not permitted.''"

definition detail_2_13 :: string where
  "detail_2_13 =
     ''All xbrl periods in a report instance MUST refer to the (same) reference date instant. ''
       @ ''All xbrl periods MUST be instants.''"

definition msg_EBA_2_13 :: string where
  "msg_EBA_2_13 =
     ''[EBA.2.13] XBRL {period} consistency.''"

definition detail_2_14 :: string where
  "detail_2_14 =
     ''xbrli:segment elements MUST NOT be used.''"

definition msg_EBA_2_14 :: string where
  "msg_EBA_2_14 =
     ''[EBA.2.14] The existence of {segment} is not permitted.''"

definition detail_2_15 :: string where
  "detail_2_15 =
     ''If an xbrli:scenario element appears in a xbrli:context, then its children MUST only be ''
       @ ''one or more xbrldi:explicitMember and/or xbrldi:typedMember elements, and MUST NOT ''
       @ ''contain any other content. [EFM13, p. 6-8].''"

definition msg_EBA_2_15 :: string where
  "msg_EBA_2_15 =
     ''[EBA.2.15] Restrictions on the use of the {scenario} element.''"

definition detail_2_16_1 :: string where
  "detail_2_16_1 =
     ''Instances MUST NOT contain duplicate business facts. [FRIS04],[EFM13, p. 6-10]''"

definition msg_EBA_2_16 :: string where
  "msg_EBA_2_16 =
     ''[EBA.2.16] Duplicate (Redundant/Inconsistent) facts {fact} and {fact2}.''"

definition detail_2_16_2 :: string where
  "detail_2_16_2 =
     ''Instances MUST NOT contain business facts which would be duplicates were their units ''
       @ ''not different.''"

definition msg_EBA_2_16_1 :: string where
  "msg_EBA_2_16_1 =
     ''[EBA.2.16.1] No multi-unit facts {fact} and {fact2}.''"

definition detail_2_17 :: string where
  "detail_2_17 =
     ''@decimals MUST be used as the only means for expressing precision on a fact. [FRIS ''
       @ ''2.8.1.1, EFM13, p.6-12].''"

definition msg_EBA_2_17 :: string where
  "msg_EBA_2_17 =
     ''[EBA.2.17] The use of the {precision} attribute is not permitted.''"

definition detail_2_19 :: string where
  "detail_2_19 =
     ''The {xsi_nil} attribute MUST NOT be used in the instance.''"

definition msg_EBA_2_19 :: string where
  "msg_EBA_2_19 =
     ''[EBA.2.19] Guidance on use of zeros and non-reported data.''"

definition detail_2_21_1 :: string where
  "detail_2_21_1 =
     ''An XBRL instance SHOULD NOT, in general, contain duplicated units, unless required for ''
       @ ''technical reasons, e.g. to support XBRL streaming.''"

definition detail_2_21_2 :: string where
  "detail_2_21_2 =
     ''Unit {unit} is a duplicate of unit {unit2}''"

definition msg_EBA_2_21 :: string where
  "msg_EBA_2_21 =
     ''[EBA.2.21] Duplicates of xbrli:xbrl/xbrli:unit.''"

definition detail_2_22 :: string where
  "detail_2_22 =
     ''An XBRL instance SHOULD NOT contain unused xbrli:unit nodes. [FRIS04]''"

definition msg_EBA_2_22 :: string where
  "msg_EBA_2_22 =
     ''[EBA.2.22] Unused xbrli:xbrl/xbrli:unit.''"

definition detail_3_1_1 :: string where
  "detail_3_1_1 =
     ''For facts falling under point (b), whose context also includes the dimension ''
       @ [CHR 0xE2, CHR 0x80, CHR 0x9C]
       @ ''Currency with significant liabilities''
       @ [CHR 0xE2, CHR 0x80, CHR 0x9D]
       @ '' (CUS), the currency of the fact (i.e. unit) MUST be consistent with the value given ''
       @ ''for this dimension.''"

definition msg_EBA_3_1 :: string where
  "msg_EBA_3_1 =
     ''[EBA.3.1] Choice of Currency for Monetary fact {fact}.''"

definition detail_3_1_2 :: string where
  "detail_3_1_2 =
     ''An instance MUST express all monetary facts which do not fall under point (b) using a ''
       @ ''single currency.''"

definition detail_3_2 :: string where
  "detail_3_2 =
     ''An instance MUST express its non-monetary numeric values using the ''
       @ [CHR 0xE2, CHR 0x80, CHR 0x9C]
       @ ''pure''
       @ [CHR 0xE2, CHR 0x80, CHR 0x9D]
       @ '' unit, a unit element with a single measure element as its only child. The local part ''
       @ ''of the measure MUST be ''
       @ [CHR 0x22]
       @ ''pure''
       @ [CHR 0x22]
       @ '' and the namespace prefix MUST resolve to the namespace: ''
       @ ''http://www.xbrl.org/2003/instance.''"

definition msg_EBA_3_2 :: string where
  "msg_EBA_3_2 =
     ''[EBA.3.2] Non-monetary numeric units.''"

definition detail_3_4 :: string where
  "detail_3_4 =
     ''Namespace prefixes that are not used SHOULD not be declared in the instance document. ''
       @ ''[FRIS04]''"

definition msg_EBA_3_4 :: string where
  "msg_EBA_3_4 =
     ''[EBA.3.4] Unused namespace prefix {prefix}.''"

definition detail_3_5 :: string where
  "detail_3_5 =
     ''Namespace prefixes, where used in instance documents, SHOULD mirror the namespace ''
       @ ''prefixes as defined by their schema author(s). [FRIS04]''"

definition msg_EBA_3_5 :: string where
  "msg_EBA_3_5 =
     ''[EBA.3.5] Re-use of canonical namespace prefix {prefix}.''"

definition detail_3_6 :: string where
  "detail_3_6 =
     ''Producers of instance documents are encouraged to switch as quickly as possible to ''
       @ ''producing the correct form ''
       @ [CHR 0xE2, CHR 0x80, CHR 0x9C]
       @ ''http://standards.iso.org/iso/17442''
       @ [CHR 0xE2, CHR 0x80, CHR 0x9D]
       @ ''.''"

definition msg_EBA_3_6 :: string where
  "msg_EBA_3_6 =
     ''[EBA.3.6] LEI and other entity codes.''"

definition detail_3_7 :: string where
  "detail_3_7 =
     ''The instance SHOULD NOT include unused @id attributes on facts.''"

definition msg_EBA_3_7 :: string where
  "msg_EBA_3_7 =
     ''[EBA.3.7] Unused {id} attribute on fact.''"

definition detail_3_8 :: string where
  "detail_3_8 =
     ''The values of each string SHOULD be as short as possible.''"

definition msg_EBA_3_8 :: string where
  "msg_EBA_3_8 =
     ''[EBA.3.8] Length of strings in instance.''"

definition detail_3_9 :: string where
  "detail_3_9 =
     ''Namespace prefixes declarations SHOULD be restricted to the document element.''"

definition msg_EBA_3_9 :: string where
  "msg_EBA_3_9 =
     ''[EBA.3.9] Namespace prefix declaration {prefix} restricted to the document element.''"

definition detail_3_10 :: string where
  "detail_3_10 =
     ''Namespaces used in the document SHOULD be associated to a single namespace prefix.''"

definition msg_EBA_3_10 :: string where
  "msg_EBA_3_10 =
     ''[EBA.3.10] Avoid multiple prefix declarations {prefix} and {prefix2} for the same ''
       @ ''namespace {namespace}.''"

definition detail_on_xbrl_finished :: string where
  "detail_on_xbrl_finished =
     ''Instance documents MUST be XBRL 2.1 and XBRL Dimensions 1.0 valid. [EFM11, p. 6-8]''"

definition msg_EBA_1_9 :: string where
  "msg_EBA_1_9 =
     ''[EBA.1.9] Valid XML-XBRL.''"


section \<open>The rule predicates\<close>

text \<open>
  Every predicate takes the instance (and, for some, the script parameters or the
  options) and the error log, and returns the log with its findings appended, or the
  exception it raised.
\<close>

subsection \<open>Filing syntax rules\<close>

definition eba_1_4 :: "xbrl_instance \<Rightarrow> xbrl_error list \<Rightarrow> xbrl_error list result" where
  "eba_1_4 inst error_log =
     (if py_upper (character_encoding_scheme (document inst)) \<noteq> ''UTF-8'' then
        let detail_error = Error_create detail_1_4 ObjNone [] [] INFO;
            main_error = Error_create msg_EBA_1_4 (ObjStr (uri inst)) [] [detail_error] ERROR
        in Inr (report error_log main_error)
      else Inr error_log)"

text \<open>The filing indicators advertised by the taxonomy's tables.\<close>

definition available_indicators :: "xbrl_instance \<Rightarrow> string set" where
  "available_indicators inst =
     fold (\<lambda>table available.
             fold (\<lambda>label available. insert (label_text label) available)
               (labels table ''http://www.eurofiling.info/xbrl/role/filing-indicator-code'') available)
       (tables (dts inst)) {}"

fun eba_1_6_loop :: "string set \<Rightarrow> xbrl_fact list \<Rightarrow> (string \<rightharpoonup> xbrl_fact) \<Rightarrow> xbrl_error list \<Rightarrow> xbrl_error list" where
  "eba_1_6_loop available [] used_indictors error_log = error_log"
| "eba_1_6_loop available (indicator # rest) used_indictors error_log =
     (let error_log =
            (if entity_segment (context_entity (fact_context indicator)) \<noteq> None
                \<or> context_scenario (fact_context indicator) \<noteq> None then
               report error_log
                 (Error_create msg_EBA_1_6 (ObjFact indicator) []
                    [Error_create detail_1_6_1 ObjNone [] [] INFO] ERROR)
             else error_log);
          stored = setdefault used_indictors (fact_normalized_value indicator) indicator;
          error_log =
            (if snd stored \<noteq> indicator then
               report error_log
                 (Error_create msg_EBA_1_6_1 (ObjFact indicator) []
                    [Error_create detail_1_6_2 ObjNone [] [] INFO] ERROR)
             else error_log);
          error_log =
            (if fact_normalized_value indicator \<notin> available then
               report error_log
                 (Error_create msg_EBA_1_6_3 (ObjFact indicator) []
                    [Error_create detail_1_6_3 ObjNone [] [] INFO] ERROR)
             else error_log)
      in eba_1_6_loop available rest (fst stored) error_log)"

definition eba_1_6 :: "xbrl_instance \<Rightarrow> xbrl_error list \<Rightarrow> xbrl_error list result" where
  "eba_1_6 inst error_log =
     (let indicator_facts =
            facts_filter_qname inst
              (QName ''filingIndicator'' ''http://www.eurofiling.info/xbrl/ext/filing-indicators'')
      in Inr (eba_1_6_loop (available_indicators inst) indicator_facts Map.empty error_log))"

definition eba_1_13 :: "xbrl_instance \<Rightarrow> xbrl_error list \<Rightarrow> xbrl_error list result" where
  "eba_1_13 inst error_log =
     (if standalone (document inst) \<noteq> None then
        let detail_error = Error_create detail_1_13 ObjNone [] [] INFO;
            main_error = Error_create msg_EBA_1_13 (ObjStr (uri inst)) [] [detail_error] WARNING
        in Inr (report error_log main_error)
      else Inr error_log)"

definition eba_1_14 :: "xbrl_instance \<Rightarrow> xbrl_error list \<Rightarrow> xbrl_error list result" where
  "eba_1_14 inst error_log =
     (let attr = find_attribute (document_element inst)
                   (QName ''schemaLocation'' ''http://www.w3.org/2001/XMLSchema-instance'');
          attr = (if attr = None then
                    find_attribute (document_element inst)
                      (QName ''noNamespaceSchemaLocation'' ''http://www.w3.org/2001/XMLSchema-instance'')
                  else attr)
      in case attr of
           Some a \<Rightarrow>
             let detail_error = Error_create detail_1_14 ObjNone [] [] INFO;
                 main_error = Error_create msg_EBA_1_14 (ObjAttribute a) [] [detail_error] ERROR
             in Inr (report error_log main_error)
         | None \<Rightarrow> Inr error_log)"

text \<open>
  The rule looks at the host's \<^verbatim>\<open>xinclude\<close> option only, not at the document, and
  locates its finding at the instance's URI.
\<close>

definition eba_1_15 :: "xbrl_instance \<Rightarrow> (string \<rightharpoonup> py_value) \<Rightarrow> xbrl_error list \<Rightarrow> xbrl_error list result" where
  "eba_1_15 inst opts error_log =
     (if py_eq_True (opts ''xinclude'') then
        let detail_error1 = Error_create detail_1_15_1 ObjNone [] [] INFO;
            detail_error2 = Error_create detail_1_15_2 ObjNone [] [] OTHER;
            main_error = Error_create msg_EBA_1_15 (ObjStr (uri inst)) []
                           [detail_error1, detail_error2] ERROR
        in Inr (report error_log main_error)
      else Inr error_log)"

subsection \<open>Instance syntax rules\<close>

definition eba_2_1 :: "xbrl_instance \<Rightarrow> xbrl_error list \<Rightarrow> xbrl_error list result" where
  "eba_2_1 inst error_log =
     Inr (fold (\<lambda>elem error_log.
                  case find_attribute elem (QName ''base'' ''http://www.w3.org/XML/1998/namespace'') of
                    Some xml_base_attr \<Rightarrow>
                      report error_log
                        (Error_create msg_EBA_2_1 ObjNone [(''xml_base'', ObjAttribute xml_base_attr)]
                           [Error_create detail_2_1 ObjNone [] [] INFO] ERROR)
                  | None \<Rightarrow> error_log)
            (dfs (document_element inst)) error_log)"

text \<open>
  \<^verbatim>\<open>next(instance.schema_refs)\<close> raises \<^verbatim>\<open>StopIteration\<close> when there is no schema
  reference. In the reporting branch the main error is built from \<^verbatim>\<open>schema_refs[0]\<close>,
  a name bound neither in the function nor in the module: evaluating it raises
  \<^verbatim>\<open>NameError\<close> before anything is reported.
\<close>

definition eba_2_2 :: "xbrl_instance \<Rightarrow> xbrl_error list \<Rightarrow> xbrl_error list result" where
  "eba_2_2 inst error_log =
     (case schema_refs inst of
        [] \<Rightarrow> Inl (StopIteration, error_log)
      | first_ref # _ \<Rightarrow>
          if \<not> py_startswith (schema_ref_xlink_href first_ref) ''http://'' then
            Inl (NameError, error_log)
          else Inr error_log)"

definition eba_2_3 :: "xbrl_instance \<Rightarrow> xbrl_error list \<Rightarrow> xbrl_error list result" where
  "eba_2_3 inst error_log =
     Inr (fold (\<lambda>schema_ref error_log.
                  report error_log
                    (Error_create msg_EBA_2_3 ObjNone [(''schemaRef'', ObjSchemaRef schema_ref)]
                       [Error_create detail_2_3 ObjNone [] [] INFO] ERROR))
            (drop 1 (schema_refs inst)) error_log)"

definition eba_2_4 :: "xbrl_instance \<Rightarrow> xbrl_error list \<Rightarrow> xbrl_error list result" where
  "eba_2_4 inst error_log =
     Inr (fold (\<lambda>linkbase_ref error_log.
                  report error_log
                    (Error_create msg_EBA_2_4 ObjNone [(''linkbaseRef'', ObjLinkbaseRef linkbase_ref)]
                       [Error_create detail_2_4 ObjNone [] [] INFO] ERROR))
            (linkbase_refs inst) error_log)"

definition eba_2_25 :: "xbrl_instance \<Rightarrow> xbrl_error list \<Rightarrow> xbrl_error list result" where
  "eba_2_25 inst error_log =
     Inr (fold (\<lambda>link error_log.
                  fold (\<lambda>footnote error_log.
                          report error_log
                            (Error_create msg_EBA_2_25 ObjNone [(''footnote'', ObjFootnote footnote)]
                               [Error_create detail_2_25 ObjNone [] [] INFO] WARNING))
                    (resources link) error_log)
            (footnote_links inst) error_log)"

subsection \<open>Context related rules\<close>

text \<open>An attribute the script looks up to point a finding at; \<^verbatim>\<open>None\<close> when it is absent.\<close>

definition attribute_obj :: "attribute option \<Rightarrow> obj" where
  "attribute_obj a = (case a of None \<Rightarrow> ObjNone | Some x \<Rightarrow> ObjAttribute x)"

definition element_obj :: "element option \<Rightarrow> obj" where
  "element_obj e = (case e of None \<Rightarrow> ObjNone | Some x \<Rightarrow> ObjElement x)"

definition id_length_error :: "xbrl_context \<Rightarrow> xbrl_error" where
  "id_length_error ctx =
     (let id_attr = find_attribute (context_element ctx) (QName ''id'' '''')
      in Error_create msg_EBA_2_6 ObjNone [(''id'', attribute_obj id_attr)]
           [Error_create detail_2_6 ObjNone [] [] INFO] WARNING)"

text \<open>\<^verbatim>\<open>len(context.id)\<close> is the number of code points of the \<^verbatim>\<open>id\<close>.\<close>

definition eba_2_6 :: "xbrl_instance \<Rightarrow> (string \<rightharpoonup> py_str) \<Rightarrow> xbrl_error list \<Rightarrow> xbrl_error list result" where
  "eba_2_6 inst params error_log =
     (case int_param params ''max-id-length'' 50 of
        Inl e \<Rightarrow> Inl (e, error_log)
      | Inr max_id_length \<Rightarrow>
          Inr (fold (\<lambda>ctx error_log.
                       if int (length (context_id ctx)) > max_id_length then
                         report error_log (id_length_error ctx)
                       else error_log)
                 (contexts inst) error_log))"

definition unused_context_error :: "xbrl_context \<Rightarrow> xbrl_error" where
  "unused_context_error ctx =
     Error_create msg_EBA_2_7 ObjNone [(''context'', ObjElement (context_element ctx))]
       [Error_create detail_2_7_1 ObjNone [] [] INFO] WARNING"

definition duplicate_context_error :: "xbrl_context \<Rightarrow> xbrl_context \<Rightarrow> xbrl_error" where
  "duplicate_context_error ctx ctx2 =
     Error_create msg_EBA_2_7 ObjNone [(''context'', ObjElement (context_element ctx))]
       [Error_create detail_2_7_2 ObjNone [] [] INFO,
        Error_create detail_2_7_3 ObjNone
          [(''context'', ObjContext ctx), (''context2'', ObjContext ctx2)] [] OTHER]
       WARNING"

text \<open>
  The loop of \<^verbatim>\<open>eba_2_7\<close>. \<open>aspects_map\<close> maps a constraint set to the list
  \<^verbatim>\<open>duplicates\<close>: \<^verbatim>\<open>setdefault\<close> puts the empty list there on the first visit and the
  context is appended to it; a later context with an equal constraint set finds the list
  non-empty and is reported against its first entry.
\<close>

fun eba_2_7_loop :: "xbrl_instance \<Rightarrow> xbrl_context list \<Rightarrow> (context_constraint_set \<rightharpoonup> xbrl_context list)
    \<Rightarrow> xbrl_error list \<Rightarrow> xbrl_error list" where
  "eba_2_7_loop inst [] aspects_map error_log = error_log"
| "eba_2_7_loop inst (ctx # rest) aspects_map error_log =
     (let error_log =
            (if facts_filter_context inst ctx = [] then report error_log (unused_context_error ctx)
             else error_log);
          stored = setdefault aspects_map (ConstraintSet_context ctx) [];
          duplicates = snd stored
      in case duplicates of
           first_ctx # _ \<Rightarrow>
             eba_2_7_loop inst rest (fst stored)
               (report error_log (duplicate_context_error ctx first_ctx))
         | [] \<Rightarrow>
             eba_2_7_loop inst rest ((fst stored)(ConstraintSet_context ctx \<mapsto> duplicates @ [ctx]))
               error_log)"

definition eba_2_7 :: "xbrl_instance \<Rightarrow> xbrl_error list \<Rightarrow> xbrl_error list result" where
  "eba_2_7 inst error_log = Inr (eba_2_7_loop inst (contexts inst) Map.empty error_log)"

text \<open>\<^verbatim>\<open>next(instance.contexts)\<close> raises \<^verbatim>\<open>StopIteration\<close> when there is no context.\<close>

definition eba_2_9 :: "xbrl_instance \<Rightarrow> xbrl_error list \<Rightarrow> xbrl_error list result" where
  "eba_2_9 inst error_log =
     (case contexts inst of
        [] \<Rightarrow> Inl (StopIteration, error_log)
      | first_ctx # _ \<Rightarrow>
          let single_identifier = entity_identifier_aspect_value first_ctx
          in Inr (fold (\<lambda>ctx error_log.
                          if entity_identifier_aspect_value ctx \<noteq> single_identifier then
                            report error_log
                              (Error_create msg_EBA_2_9
                                 (ObjElement (entity_identifier (context_entity ctx))) []
                                 [Error_create detail_2_9 ObjNone [] [] INFO] ERROR)
                          else error_log)
                    (contexts inst) error_log))"

definition eba_2_10 :: "xbrl_instance \<Rightarrow> xbrl_error list \<Rightarrow> xbrl_error list result" where
  "eba_2_10 inst error_log =
     Inr (fold (\<lambda>ctx error_log.
                  let period = context_period ctx
                  in case period_instant period of
                       Some instant \<Rightarrow>
                         if date_tzinfo instant \<noteq> None \<or> date_type_name instant \<noteq> ''date'' then
                           report error_log
                             (Error_create msg_EBA_2_10 ObjNone [(''period'', ObjPeriod (context_period ctx))]
                                [Error_create detail_2_10 ObjNone [] [] INFO] ERROR)
                         else error_log
                     | None \<Rightarrow> error_log)
            (contexts inst) error_log)"

definition eba_2_11 :: "xbrl_instance \<Rightarrow> xbrl_error list \<Rightarrow> xbrl_error list result" where
  "eba_2_11 inst error_log =
     Inr (fold (\<lambda>ctx error_log.
                  if is_forever (context_period ctx) then
                    report error_log
                      (Error_create msg_EBA_2_11 ObjNone
                         [(''forever'', element_obj (period_forever (context_period ctx)))]
                         [Error_create detail_2_11 ObjNone [] [] INFO] ERROR)
                  else error_log)
            (contexts inst) error_log)"

definition eba_2_13 :: "xbrl_instance \<Rightarrow> xbrl_error list \<Rightarrow> xbrl_error list result" where
  "eba_2_13 inst error_log =
     (case contexts inst of
        [] \<Rightarrow> Inl (StopIteration, error_log)
      | first_ctx # _ \<Rightarrow>
          let single_period = period_aspect_value first_ctx
          in Inr (fold (\<lambda>ctx error_log.
                          if \<not> is_instant (context_period ctx) \<or> period_aspect_value ctx \<noteq> single_period then
                            report error_log
                              (Error_create msg_EBA_2_13 ObjNone [(''period'', ObjPeriod (context_period ctx))]
                                 [Error_create detail_2_13 ObjNone [] [] INFO] ERROR)
                          else error_log)
                    (contexts inst) error_log))"

definition eba_2_14 :: "xbrl_instance \<Rightarrow> xbrl_error list \<Rightarrow> xbrl_error list result" where
  "eba_2_14 inst error_log =
     Inr (fold (\<lambda>ctx error_log.
                  case entity_segment (context_entity ctx) of
                    Some segment \<Rightarrow>
                      report error_log
                        (Error_create msg_EBA_2_14 ObjNone [(''segment'', ObjElement segment)]
                           [Error_create detail_2_14 ObjNone [] [] INFO] ERROR)
                  | None \<Rightarrow> error_log)
            (contexts inst) error_log)"

definition eba_2_15 :: "xbrl_instance \<Rightarrow> xbrl_error list \<Rightarrow> xbrl_error list result" where
  "eba_2_15 inst error_log =
     Inr (fold (\<lambda>ctx error_log.
                  case context_scenario ctx of
                    Some scenario \<Rightarrow>
                      if non_xdt_child_elements scenario \<noteq> [] then
                        report error_log
                          (Error_create msg_EBA_2_15 ObjNone [(''scenario'', ObjScenario scenario)]
                             [Error_create detail_2_15 ObjNone [] [] INFO] ERROR)
                      else error_log
                  | None \<Rightarrow> error_log)
            (contexts inst) error_log)"

subsection \<open>Fact related rules\<close>

definition duplicate_fact_error :: "xbrl_fact \<Rightarrow> xbrl_fact \<Rightarrow> xbrl_error" where
  "duplicate_fact_error fct duplicate_fact =
     Error_create msg_EBA_2_16 ObjNone [(''fact'', ObjFact fct), (''fact2'', ObjFact duplicate_fact)]
       [Error_create detail_2_16_1 ObjNone [] [] INFO] ERROR"

definition multi_unit_fact_error :: "xbrl_fact \<Rightarrow> xbrl_fact \<Rightarrow> xbrl_error" where
  "multi_unit_fact_error fct duplicate_fact =
     Error_create msg_EBA_2_16_1 ObjNone [(''fact'', ObjFact fct), (''fact2'', ObjFact duplicate_fact)]
       [Error_create detail_2_16_2 ObjNone [] [] INFO] ERROR"

text \<open>
  The inner loop of \<^verbatim>\<open>eba_2_16\<close> over the facts of one concept. \<^verbatim>\<open>setdefault\<close>
  stores the fact under its key only when the key is new and returns the stored fact;
  \<^verbatim>\<open>duplicate_facts[key]\<close> read afterwards is that same stored fact. The dictionary is
  returned with the log.
\<close>

fun eba_2_16_loop :: "xbrl_fact list \<Rightarrow> (xbrl_context \<times> string option \<rightharpoonup> xbrl_fact) \<Rightarrow> xbrl_error list
    \<Rightarrow> (xbrl_context \<times> string option \<rightharpoonup> xbrl_fact) \<times> xbrl_error list" where
  "eba_2_16_loop [] duplicate_facts error_log = (duplicate_facts, error_log)"
| "eba_2_16_loop (fct # rest) duplicate_facts error_log =
     (let key = (fact_context fct, fact_xml_lang fct);
          stored = setdefault duplicate_facts key fct
      in if snd stored \<noteq> fct then
           let duplicate_fact = snd stored
           in if fact_unit fct = fact_unit duplicate_fact then
                eba_2_16_loop rest (fst stored) (report error_log (duplicate_fact_error fct duplicate_fact))
              else
                eba_2_16_loop rest (fst stored) (report error_log (multi_unit_fact_error fct duplicate_fact))
         else eba_2_16_loop rest (fst stored) error_log)"

text \<open>The guard of \<^verbatim>\<open>eba_2_16\<close>: an item concept other than the filing indicator.\<close>

definition eba_2_16_checked :: "xbrl_concept \<Rightarrow> bool" where
  "eba_2_16_checked c =
     (concept_is_item c
      \<and> (concept_target_namespace c \<noteq> ''http://www.eurofiling.info/xbrl/ext/filing-indicators''
         \<or> concept_name c \<noteq> ''filingIndicator''))"

definition eba_2_16 :: "xbrl_instance \<Rightarrow> xbrl_error list \<Rightarrow> xbrl_error list result" where
  "eba_2_16 inst error_log =
     Inr (fold (\<lambda>c error_log.
                  if eba_2_16_checked c then
                    snd (eba_2_16_loop (facts_filter_concept inst c) Map.empty error_log)
                  else error_log)
            (concept_aspect_values inst) error_log)"

definition eba_2_17 :: "xbrl_instance \<Rightarrow> xbrl_error list \<Rightarrow> xbrl_error list result" where
  "eba_2_17 inst error_log =
     Inr (fold (\<lambda>fct error_log.
                  if py_truthy (fact_precision fct) then
                    let precision_attr = find_attribute (fact_element fct) (QName ''precision'' '''')
                    in report error_log
                         (Error_create msg_EBA_2_17 ObjNone [(''precision'', attribute_obj precision_attr)]
                            [Error_create detail_2_17 ObjNone [] [] INFO] ERROR)
                  else error_log)
            (child_items inst) error_log)"

definition eba_2_19 :: "xbrl_instance \<Rightarrow> xbrl_error list \<Rightarrow> xbrl_error list result" where
  "eba_2_19 inst error_log =
     Inr (fold (\<lambda>fct error_log.
                  if fact_xsi_nil fct then
                    let xsi_nil_attr = find_attribute (fact_element fct)
                                         (QName ''nil'' ''http://www.w3.org/2001/XMLSchema-instance'')
                    in report error_log
                         (Error_create msg_EBA_2_19 (ObjFact fct) []
                            [Error_create detail_2_19 ObjNone [(''xsi_nil'', attribute_obj xsi_nil_attr)] [] INFO]
                            ERROR)
                  else error_log)
            (child_items inst) error_log)"

subsection \<open>Unit related rules\<close>

definition duplicate_unit_error :: "xbrl_unit \<Rightarrow> xbrl_unit \<Rightarrow> xbrl_error" where
  "duplicate_unit_error u u2 =
     Error_create msg_EBA_2_21 (ObjElement (unit_element u)) []
       [Error_create detail_2_21_1 ObjNone [] [] INFO,
        Error_create detail_2_21_2 ObjNone [(''unit'', ObjUnit u), (''unit2'', ObjUnit u2)] [] OTHER]
       WARNING"

fun eba_2_21_loop :: "xbrl_unit list \<Rightarrow> (unit_aspect_value \<rightharpoonup> xbrl_unit list) \<Rightarrow> xbrl_error list
    \<Rightarrow> xbrl_error list" where
  "eba_2_21_loop [] aspects_map error_log = error_log"
| "eba_2_21_loop (u # rest) aspects_map error_log =
     (let stored = setdefault aspects_map (ConstraintSet_unit u) [];
          duplicates = snd stored
      in case duplicates of
           first_unit # _ \<Rightarrow>
             eba_2_21_loop rest (fst stored) (report error_log (duplicate_unit_error u first_unit))
         | [] \<Rightarrow>
             eba_2_21_loop rest ((fst stored)(ConstraintSet_unit u \<mapsto> duplicates @ [u])) error_log)"

definition eba_2_21 :: "xbrl_instance \<Rightarrow> xbrl_error list \<Rightarrow> xbrl_error list result" where
  "eba_2_21 inst error_log = Inr (eba_2_21_loop (units inst) Map.empty error_log)"

definition eba_2_22 :: "xbrl_instance \<Rightarrow> xbrl_error list \<Rightarrow> xbrl_error list result" where
  "eba_2_22 inst error_log =
     Inr (fold (\<lambda>u error_log.
                  if facts_filter_unit inst u = [] then
                    report error_log
                      (Error_create msg_EBA_2_22 (ObjUnit u) []
                         [Error_create detail_2_22 ObjNone [] [] INFO] WARNING)
                  else error_log)
            (units inst) error_log)"

text \<open>
  The single-currency loop of \<^verbatim>\<open>eba_3_1\<close>: \<^verbatim>\<open>single_unit\<close> starts as \<^verbatim>\<open>None\<close>
  and takes the unit of the first monetary fct.
\<close>

fun eba_3_1_single_currency :: "xbrl_fact list \<Rightarrow> xbrl_unit option \<Rightarrow> xbrl_error list \<Rightarrow> xbrl_error list" where
  "eba_3_1_single_currency [] single_unit error_log = error_log"
| "eba_3_1_single_currency (fct # rest) single_unit error_log =
     (if concept_is_monetary (fact_concept fct) then
        if single_unit = None then eba_3_1_single_currency rest (fact_unit fct) error_log
        else if fact_unit fct \<noteq> single_unit then
          eba_3_1_single_currency rest single_unit
            (report error_log
               (Error_create msg_EBA_3_1 ObjNone [(''fact'', ObjFact fct)]
                  [Error_create detail_3_1_2 ObjNone [] [] INFO] ERROR))
        else eba_3_1_single_currency rest single_unit error_log
      else eba_3_1_single_currency rest single_unit error_log)"

text \<open>
  The first loop of \<^verbatim>\<open>eba_3_1\<close>, over the facts of the denomination constraint.
  The currency member of a fact is looked up under the dimension \<^verbatim>\<open>CUS\<close>; a fact
  without that dimension, or a taxonomy without that concept, gives \<^verbatim>\<open>None\<close>. The
  unit aspect of a fact without a unit is missing from its aspect values, and reading it
  raises \<^verbatim>\<open>KeyError\<close>.
\<close>

fun eba_3_1_denomination :: "xbrl_concept option \<Rightarrow> xbrl_fact list \<Rightarrow> xbrl_error list \<Rightarrow> xbrl_error list result" where
  "eba_3_1_denomination eba_dim_CUS [] error_log = Inr error_log"
| "eba_3_1_denomination eba_dim_CUS (fct # rest) error_log =
     (if concept_is_monetary (fact_concept fct) then
        let currency =
              (case eba_dim_CUS of
                 None \<Rightarrow> None
               | Some cus \<Rightarrow> map_of (dimension_aspect_values (fact_context fct)) (concept_qname cus))
        in case currency of
             Some member \<Rightarrow>
               (case fact_unit fct of
                  None \<Rightarrow> Inl (KeyError, error_log)
                | Some u \<Rightarrow>
                    if Some (fst member) \<noteq> iso4217_currency (unit_aspect_value u) then
                      eba_3_1_denomination eba_dim_CUS rest
                        (report error_log
                           (Error_create msg_EBA_3_1 ObjNone [(''fact'', ObjFact fct)]
                              [Error_create detail_3_1_1 ObjNone [] [] INFO] ERROR))
                    else eba_3_1_denomination eba_dim_CUS rest error_log)
           | None \<Rightarrow> eba_3_1_denomination eba_dim_CUS rest error_log
      else eba_3_1_denomination eba_dim_CUS rest error_log)"

text \<open>
  \<^verbatim>\<open>eba_3_1\<close> resolves three concepts of the EBA dictionary. The constraint set is
  built from the dimension \<^verbatim>\<open>CCA\<close> and its member \<^verbatim>\<open>x1\<close>; when the taxonomy has
  neither, the host cannot build it and the fault goes to the caller (\<open>TypeError\<close>
  here).
\<close>

definition eba_3_1 :: "xbrl_instance \<Rightarrow> xbrl_error list \<Rightarrow> xbrl_error list result" where
  "eba_3_1 inst error_log =
     (let eba_dim_CCA = resolve_concept (dts inst) (QName ''CCA'' ''http://www.eba.europa.eu/xbrl/crr/dict/dim'');
          eba_dim_CUS = resolve_concept (dts inst) (QName ''CUS'' ''http://www.eba.europa.eu/xbrl/crr/dict/dim'');
          eba_CA_x1 = resolve_concept (dts inst) (QName ''x1'' ''http://www.eba.europa.eu/xbrl/crr/dict/dom/CA'')
      in case (eba_dim_CCA, eba_CA_x1) of
           (Some cca, Some x1) \<Rightarrow>
             let denomination_facts =
                   filter (\<lambda>f. map_of (dimension_aspect_values (fact_context f)) (concept_qname cca)
                                = Some (concept_qname x1)) (facts inst)
             in (case eba_3_1_denomination eba_dim_CUS denomination_facts error_log of
                   Inl raised \<Rightarrow> Inl raised
                 | Inr error_log \<Rightarrow>
                     let monetary_units = filter (\<lambda>u. is_monetary (unit_aspect_value u)) (units inst)
                     in if length monetary_units > 1 then
                          Inr (eba_3_1_single_currency
                                 (filter (\<lambda>f. f \<notin> set denomination_facts) (child_items inst)) None error_log)
                        else Inr error_log)
         | _ \<Rightarrow> Inl (TypeError, error_log))"

text \<open>
  The loop of \<^verbatim>\<open>eba_3_2\<close>. \<^verbatim>\<open>fact.unit\<close> is \<^verbatim>\<open>None\<close> for a fact without a unit,
  and reading \<^verbatim>\<open>aspect_value\<close> from it raises \<^verbatim>\<open>AttributeError\<close>.
\<close>

fun eba_3_2_loop :: "xbrl_fact list \<Rightarrow> xbrl_error list \<Rightarrow> xbrl_error list result" where
  "eba_3_2_loop [] error_log = Inr error_log"
| "eba_3_2_loop (fct # rest) error_log =
     (if concept_is_numeric (fact_concept fct) \<and> \<not> concept_is_monetary (fact_concept fct) then
        (case fact_unit fct of
           None \<Rightarrow> Inl (AttributeError, error_log)
         | Some u \<Rightarrow>
             if \<not> is_pure (unit_aspect_value u) then
               eba_3_2_loop rest
                 (report error_log
                    (Error_create msg_EBA_3_2 (ObjFact fct) []
                       [Error_create detail_3_2 ObjNone [] [] INFO] ERROR))
             else eba_3_2_loop rest error_log)
      else eba_3_2_loop rest error_log)"

definition eba_3_2 :: "xbrl_instance \<Rightarrow> xbrl_error list \<Rightarrow> xbrl_error list result" where
  "eba_3_2 inst error_log = eba_3_2_loop (child_items inst) error_log"

subsection \<open>Additional guidance\<close>

text \<open>The prefixes used by one element: its own, its attributes' and those of QName values.\<close>

definition value_prefixes :: "schema_value \<Rightarrow> string option set" where
  "value_prefixes val = (case val of XsdQName p \<Rightarrow> {p} | _ \<Rightarrow> {})"

definition eba_3_4_used_prefixes :: "xbrl_instance \<Rightarrow> string option set" where
  "eba_3_4_used_prefixes inst =
     fold (\<lambda>elem used_prefixes.
             fold (\<lambda>attr used_prefixes.
                     insert (attr_prefix attr) used_prefixes \<union> value_prefixes (attr_schema_actual_value attr))
               (attributes elem)
               (insert (elem_prefix elem) used_prefixes \<union> value_prefixes (elem_schema_actual_value elem)))
       (dfs (document_element inst)) {}"

definition eba_3_4 :: "xbrl_instance \<Rightarrow> xbrl_error list \<Rightarrow> xbrl_error list result" where
  "eba_3_4 inst error_log =
     (let used_prefixes = eba_3_4_used_prefixes inst
      in Inr (fold (\<lambda>nsattr error_log.
                      if attr_local_name nsattr \<noteq> ''xmlns'' \<and> Some (attr_local_name nsattr) \<notin> used_prefixes then
                        report error_log
                          (Error_create msg_EBA_3_4 ObjNone [(''prefix'', ObjAttribute nsattr)]
                             [Error_create detail_3_4 ObjNone [] [] INFO] WARNING)
                      else error_log)
                (namespace_attributes (document_element inst)) error_log))"

text \<open>
  The prefix each taxonomy schema binds to its own target namespace: the first namespace
  declaration of the schema element that does so (the inner loop stops at it).
\<close>

definition eba_3_5_namespace_bindings :: "xbrl_instance \<Rightarrow> (string \<rightharpoonup> string)" where
  "eba_3_5_namespace_bindings inst =
     fold (\<lambda>schema namespace_bindings.
             case find (\<lambda>nsattr. attr_local_name nsattr \<noteq> ''xmlns''
                                  \<and> attr_normalized_value nsattr = schema_target_namespace schema)
                    (namespace_attributes (schema_element schema)) of
               Some nsattr \<Rightarrow> namespace_bindings(schema_target_namespace schema \<mapsto> attr_local_name nsattr)
             | None \<Rightarrow> namespace_bindings)
       (taxonomy_schemas (dts inst)) Map.empty"

definition eba_3_5 :: "xbrl_instance \<Rightarrow> xbrl_error list \<Rightarrow> xbrl_error list result" where
  "eba_3_5 inst error_log =
     (let namespace_bindings = eba_3_5_namespace_bindings inst
      in Inr (fold (\<lambda>nsattr error_log.
                      if attr_local_name nsattr \<noteq> ''xmlns''
                         \<and> attr_local_name nsattr
                             \<noteq> (case namespace_bindings (attr_normalized_value nsattr) of
                                  None \<Rightarrow> attr_local_name nsattr | Some p \<Rightarrow> p) then
                        report error_log
                          (Error_create msg_EBA_3_5 ObjNone [(''prefix'', ObjAttribute nsattr)]
                             [Error_create detail_3_5 ObjNone [] [] INFO] WARNING)
                      else error_log)
                (namespace_attributes (document_element inst)) error_log))"

definition eba_3_6 :: "xbrl_instance \<Rightarrow> xbrl_error list \<Rightarrow> xbrl_error list result" where
  "eba_3_6 inst error_log =
     Inr (fold (\<lambda>ctx error_log.
                  if identifier_scheme (entity_identifier_aspect_value ctx) = ''http://standard.iso.org/iso/17442'' then
                    report error_log
                      (Error_create msg_EBA_3_6 (ObjElement (entity_identifier (context_entity ctx))) []
                         [Error_create detail_3_6 ObjNone [] [] INFO] WARNING)
                  else error_log)
            (contexts inst) error_log)"

text \<open>\<^verbatim>\<open>href.split('#')[-1]\<close>: what follows the last \<^verbatim>\<open>#\<close>, or the whole string.\<close>

definition fragment_of :: "string \<Rightarrow> string" where
  "fragment_of href = rev (takeWhile (\<lambda>c. c \<noteq> CHR ''#'') (rev href))"

definition eba_3_7_used_ids :: "xbrl_instance \<Rightarrow> string set" where
  "eba_3_7_used_ids inst =
     fold (\<lambda>footnote_link used_ids.
             fold (\<lambda>loc used_ids.
                     let fragment = fragment_of (loc_xlink_href loc)
                     in if CHR ''('' \<notin> set fragment then insert fragment used_ids else used_ids)
               (locators footnote_link) used_ids)
       (footnote_links inst) {}"

definition eba_3_7 :: "xbrl_instance \<Rightarrow> xbrl_error list \<Rightarrow> xbrl_error list result" where
  "eba_3_7 inst error_log =
     (let used_ids = eba_3_7_used_ids inst
      in Inr (fold (\<lambda>fct error_log.
                      case fact_id fct of
                        Some i \<Rightarrow>
                          if i \<noteq> [] \<and> i \<notin> used_ids then
                            let id_attr = find_attribute (fact_element fct) (QName ''id'' '''')
                            in report error_log
                                 (Error_create msg_EBA_3_7 ObjNone [(''id'', attribute_obj id_attr)]
                                    [Error_create detail_3_7 ObjNone [] [] INFO] WARNING)
                          else error_log
                      | None \<Rightarrow> error_log)
                (child_items inst) error_log))"

definition string_length_error :: "xbrl_fact \<Rightarrow> xbrl_error" where
  "string_length_error fct =
     Error_create msg_EBA_3_8 (ObjFact fct) []
       [Error_create detail_3_8 ObjNone [] [] INFO] WARNING"

text \<open>
  \<^verbatim>\<open>len(val.value)\<close> is the number of code points of the string value of the fact.
\<close>

definition eba_3_8 :: "xbrl_instance \<Rightarrow> (string \<rightharpoonup> py_str) \<Rightarrow> xbrl_error list \<Rightarrow> xbrl_error list result" where
  "eba_3_8 inst params error_log =
     (case int_param params ''max-string-length'' 100 of
        Inl e \<Rightarrow> Inl (e, error_log)
      | Inr max_string_length \<Rightarrow>
          Inr (fold (\<lambda>fct error_log.
                       case elem_schema_actual_value (fact_element fct) of
                         XsdString v \<Rightarrow>
                           if int (length v) > max_string_length then
                             report error_log (string_length_error fct)
                           else error_log
                       | _ \<Rightarrow> error_log)
                 (child_items inst) error_log))"

text \<open>
  \<^verbatim>\<open>next(elements)\<close> skips the document element, which the walker always yields
  first, so it does not raise.
\<close>

definition eba_3_9 :: "xbrl_instance \<Rightarrow> xbrl_error list \<Rightarrow> xbrl_error list result" where
  "eba_3_9 inst error_log =
     (case dfs (document_element inst) of
        [] \<Rightarrow> Inl (StopIteration, error_log)
      | _ # elements \<Rightarrow>
          Inr (fold (\<lambda>elem error_log.
                       fold (\<lambda>nsattr error_log.
                               report error_log
                                 (Error_create msg_EBA_3_9 ObjNone [(''prefix'', ObjAttribute nsattr)]
                                    [Error_create detail_3_9 ObjNone [] [] INFO] WARNING))
                         (namespace_attributes elem) error_log)
                 elements error_log))"

fun eba_3_10_loop :: "attribute list \<Rightarrow> (string \<rightharpoonup> attribute) \<Rightarrow> xbrl_error list \<Rightarrow> xbrl_error list" where
  "eba_3_10_loop [] used_namespaces error_log = error_log"
| "eba_3_10_loop (nsattr # rest) used_namespaces error_log =
     (let stored = setdefault used_namespaces (attr_normalized_value nsattr) nsattr
      in if snd stored \<noteq> nsattr then
           eba_3_10_loop rest (fst stored)
             (report error_log
                (Error_create msg_EBA_3_10 ObjNone
                   [(''prefix'', ObjAttribute nsattr), (''prefix2'', ObjAttribute (snd stored)),
                    (''namespace'', ObjStr (attr_normalized_value nsattr))]
                   [Error_create detail_3_10 ObjNone [] [] INFO] WARNING))
         else eba_3_10_loop rest (fst stored) error_log)"

definition eba_3_10 :: "xbrl_instance \<Rightarrow> xbrl_error list \<Rightarrow> xbrl_error list result" where
  "eba_3_10 inst error_log =
     Inr (eba_3_10_loop (namespace_attributes (document_element inst)) Map.empty error_log)"

section \<open>The dispatcher\<close>

text \<open>
  The rules run one after the other on the job's error log; an exception of one rule
  ends the run with the log as that rule left it.
\<close>

fun run_rules :: "(xbrl_error list \<Rightarrow> xbrl_error list result) list \<Rightarrow> xbrl_error list \<Rightarrow> xbrl_error list result" where
  "run_rules [] error_log = Inr error_log"
| "run_rules (rule # rules) error_log =
     (case rule error_log of
        Inl raised \<Rightarrow> Inl raised
      | Inr error_log \<Rightarrow> run_rules rules error_log)"

text \<open>The rules in the order in which \<^verbatim>\<open>check_eba_filing_rules\<close> calls them.\<close>

definition eba_filing_rules :: "(string \<rightharpoonup> py_str) \<Rightarrow> (string \<rightharpoonup> py_value) \<Rightarrow> xbrl_instance
    \<Rightarrow> (xbrl_error list \<Rightarrow> xbrl_error list result) list" where
  "eba_filing_rules params opts inst =
     [eba_1_4 inst, eba_1_6 inst, eba_1_13 inst, eba_1_14 inst, eba_1_15 inst opts,
      eba_2_1 inst, eba_2_2 inst, eba_2_3 inst, eba_2_4 inst, eba_2_25 inst,
      eba_2_6 inst params, eba_2_7 inst, eba_2_9 inst, eba_2_10 inst, eba_2_11 inst,
      eba_2_13 inst, eba_2_14 inst, eba_2_15 inst,
      eba_2_16 inst, eba_2_17 inst, eba_2_19 inst,
      eba_2_21 inst, eba_2_22 inst, eba_3_1 inst, eba_3_2 inst,
      eba_3_4 inst, eba_3_5 inst, eba_3_6 inst, eba_3_7 inst, eba_3_8 inst params,
      eba_3_9 inst, eba_3_10 inst]"

definition check_eba_filing_rules :: "job \<Rightarrow> xbrl_instance \<Rightarrow> job result" where
  "check_eba_filing_rules job inst =
     (let params = script_params job;
          error_log = job_error_log job
      in case run_rules (eba_filing_rules params (options job) inst) error_log of
           Inl (e, error_log) \<Rightarrow> Inl (e, job\<lparr>job_error_log := error_log\<rparr>)
         | Inr error_log \<Rightarrow> Inr (job\<lparr>job_error_log := error_log\<rparr>))"

text \<open>\<^verbatim>\<open>on_xbrl_finished_dts\<close> switches the host's UTR validation on.\<close>

definition on_xbrl_finished_dts :: "job \<Rightarrow> xbrl_dts \<Rightarrow> job" where
  "on_xbrl_finished_dts job d = job\<lparr>options := (options job)(''utr'' \<mapsto> PyBool True)\<rparr>"

text \<open>
  The entry point. The host passes \<^verbatim>\<open>None\<close> for the instance when XBRL 2.1
  validation failed: the errors of the log become the children of one EBA 1.9 error,
  after its detail, and the log is cleared before that error is reported.
\<close>

definition on_xbrl_finished :: "job \<Rightarrow> xbrl_instance option \<Rightarrow> job result" where
  "on_xbrl_finished job instance_opt =
     (case instance_opt of
        Some inst \<Rightarrow> check_eba_filing_rules job inst
      | None \<Rightarrow>
          let xbrl_errors = [Error_create detail_on_xbrl_finished ObjNone [] [] INFO] @ job_error_log job;
              main_error = Error_create msg_EBA_1_9 ObjNone [] xbrl_errors ERROR
          in Inr (job\<lparr>job_error_log := report [] main_error\<rparr>))"

section \<open>Notions used to state the properties\<close>

subsection \<open>Results and logs\<close>

text \<open>The state a run leaves, the exception it raised, and the log put before a result.\<close>

definition result_state :: "'a result \<Rightarrow> 'a" where
  "result_state r = (case r of Inl (e, l) \<Rightarrow> l | Inr l \<Rightarrow> l)"

definition raised :: "'a result \<Rightarrow> py_error option" where
  "raised r = (case r of Inl (e, l) \<Rightarrow> Some e | Inr l \<Rightarrow> None)"

definition prepend :: "xbrl_error list \<Rightarrow> xbrl_error list result \<Rightarrow> xbrl_error list result" where
  "prepend error_log r =
     (case r of Inl (e, l) \<Rightarrow> Inl (e, error_log @ l) | Inr l \<Rightarrow> Inr (error_log @ l))"

text \<open>The findings a run of the dispatcher on \<open>job\<close> added to the job's log.\<close>

definition appended_findings :: "job \<Rightarrow> job result \<Rightarrow> xbrl_error list" where
  "appended_findings job r = drop (length (job_error_log job)) (job_error_log (result_state r))"

subsection \<open>Elements of a tree\<close>

text \<open>Every element of a subtree, each node once, in document order.\<close>

fun elements_of :: "element \<Rightarrow> element list" where
  "elements_of (Element i n ns p v as nas cs) =
     Element i n ns p v as nas cs # concat (map elements_of cs)"

text \<open>The XInclude elements of the instance document.\<close>

definition xinclude_occurrences :: "xbrl_instance \<Rightarrow> nat" where
  "xinclude_occurrences inst =
     length (filter (\<lambda>e. elem_local_name e = ''include''
                          \<and> elem_namespace_name e = ''http://www.w3.org/2001/XInclude'')
               (elements_of (document_element inst)))"

subsection \<open>Reading findings back\<close>

fun obj_context :: "obj \<Rightarrow> xbrl_context option" where
  "obj_context (ObjContext c) = Some c"
| "obj_context _ = None"

fun obj_unit :: "obj \<Rightarrow> xbrl_unit option" where
  "obj_unit (ObjUnit u) = Some u"
| "obj_unit _ = None"

fun obj_fact :: "obj \<Rightarrow> xbrl_fact option" where
  "obj_fact (ObjFact f) = Some f"
| "obj_fact _ = None"

text \<open>
  A duplicate finding has two children; the second names the duplicate and the
  canonical entity in its two parameters.
\<close>

definition duplicate_detail_objs :: "xbrl_error \<Rightarrow> (obj \<times> obj) option" where
  "duplicate_detail_objs e =
     (case error_children e of
        [d1, d2] \<Rightarrow> (case error_params d2 of [p1, p2] \<Rightarrow> Some (snd p1, snd p2) | _ \<Rightarrow> None)
      | _ \<Rightarrow> None)"

definition duplicate_context_finding :: "xbrl_error \<Rightarrow> (xbrl_context \<times> xbrl_context) option" where
  "duplicate_context_finding e =
     (case duplicate_detail_objs e of
        None \<Rightarrow> None
      | Some (a, b) \<Rightarrow>
          (case (obj_context a, obj_context b) of (Some c, Some c2) \<Rightarrow> Some (c, c2) | _ \<Rightarrow> None))"

definition duplicate_unit_finding :: "xbrl_error \<Rightarrow> (xbrl_unit \<times> xbrl_unit) option" where
  "duplicate_unit_finding e =
     (case duplicate_detail_objs e of
        None \<Rightarrow> None
      | Some (a, b) \<Rightarrow>
          (case (obj_unit a, obj_unit b) of (Some u, Some u2) \<Rightarrow> Some (u, u2) | _ \<Rightarrow> None))"

text \<open>The duplicate findings about the contexts (units) of one constraint set.\<close>

definition duplicate_context_finding_of :: "context_constraint_set \<Rightarrow> xbrl_error \<Rightarrow> bool" where
  "duplicate_context_finding_of s e =
     (case duplicate_context_finding e of
        Some (c, c2) \<Rightarrow> ConstraintSet_context c = s
      | None \<Rightarrow> False)"

definition duplicate_unit_finding_of :: "unit_aspect_value \<Rightarrow> xbrl_error \<Rightarrow> bool" where
  "duplicate_unit_finding_of s e =
     (case duplicate_unit_finding e of
        Some (u, u2) \<Rightarrow> ConstraintSet_unit u = s
      | None \<Rightarrow> False)"

text \<open>The contexts (units) of one constraint set, in document order.\<close>

definition contexts_with :: "xbrl_instance \<Rightarrow> context_constraint_set \<Rightarrow> xbrl_context list" where
  "contexts_with inst s = filter (\<lambda>c. ConstraintSet_context c = s) (contexts inst)"

definition units_with :: "xbrl_instance \<Rightarrow> unit_aspect_value \<Rightarrow> xbrl_unit list" where
  "units_with inst s = filter (\<lambda>u. ConstraintSet_unit u = s) (units inst)"

text \<open>
  A finding of the duplicate-fact check names the fact and the fact it was compared
  with in its two parameters.
\<close>

definition fact_finding :: "xbrl_error \<Rightarrow> (xbrl_fact \<times> xbrl_fact) option" where
  "fact_finding e =
     (case error_params e of
        [p1, p2] \<Rightarrow>
          (case (obj_fact (snd p1), obj_fact (snd p2)) of (Some f, Some g) \<Rightarrow> Some (f, g) | _ \<Rightarrow> None)
      | _ \<Rightarrow> None)"

definition fact_key :: "xbrl_fact \<Rightarrow> xbrl_context \<times> string option" where
  "fact_key f = (fact_context f, fact_xml_lang f)"

text \<open>The findings about the facts of concept \<open>c\<close> with key \<open>k\<close>, and those facts.\<close>

definition fact_finding_of :: "xbrl_concept \<Rightarrow> xbrl_context \<times> string option \<Rightarrow> xbrl_error \<Rightarrow> bool" where
  "fact_finding_of c k e =
     (case fact_finding e of
        Some (f, g) \<Rightarrow> fact_concept f = c \<and> fact_key f = k
      | None \<Rightarrow> False)"

definition facts_with :: "xbrl_instance \<Rightarrow> xbrl_concept \<Rightarrow> xbrl_context \<times> string option \<Rightarrow> xbrl_fact list" where
  "facts_with inst c k = filter (\<lambda>f. fact_key f = k) (facts_filter_concept inst c)"

text \<open>
  The finding expected for a fact beyond the first of its group: a duplicate-fact
  finding when its unit is that of the fact it is compared with, a multi-unit finding
  when the units differ.
\<close>

definition expected_fact_finding :: "xbrl_fact \<Rightarrow> xbrl_fact \<Rightarrow> xbrl_error" where
  "expected_fact_finding f g =
     (if fact_unit f = fact_unit g then duplicate_fact_error f g else multi_unit_fact_error f g)"

subsection \<open>Exceeding a length limit\<close>

text \<open>
  A context whose \<^verbatim>\<open>id\<close> has more than \<open>n\<close> characters, and a fact whose value is a
  string of more than \<open>n\<close> characters.
\<close>

definition id_exceeds :: "int \<Rightarrow> xbrl_context \<Rightarrow> bool" where
  "id_exceeds n ctx = (n < int (length (context_id ctx)))"

definition string_exceeds :: "int \<Rightarrow> xbrl_fact \<Rightarrow> bool" where
  "string_exceeds n f =
     (case elem_schema_actual_value (fact_element f) of
        XsdString v \<Rightarrow> n < int (length v)
      | _ \<Rightarrow> False)"

subsection \<open>A small instance\<close>

text \<open>
  An instance with one schema reference, three contexts (the second a duplicate of the
  first, the third of another period), two units and three facts of one concept in the
  first context, the first in euro and the others in dollar.
\<close>

definition example_element :: "nat \<Rightarrow> string \<Rightarrow> element" where
  "example_element i n =
     Element i n ''http://www.xbrl.org/2003/instance'' (Some ''xbrli'') XsdOther [] [] []"

definition example_context :: "nat \<Rightarrow> string \<Rightarrow> string \<Rightarrow> xbrl_context" where
  "example_context i ident day =
     \<lparr>context_id = ascii ident,
      context_element = example_element i ''context'',
      context_entity = \<lparr>entity_identifier = example_element (i + 1) ''identifier'', entity_segment = None\<rparr>,
      entity_identifier_aspect_value =
        \<lparr>identifier_scheme = ''http://standards.iso.org/iso/17442'', identifier_value = ''LEI0001''\<rparr>,
      context_period =
        Instant \<lparr>date_value = day, date_tzinfo = None, date_type_name = ''date''\<rparr>,
      period_aspect_value = InstantValue day,
      context_scenario = None,
      dimension_aspect_values = []\<rparr>"

definition example_unit :: "nat \<Rightarrow> string \<Rightarrow> xbrl_unit" where
  "example_unit i currency =
     \<lparr>unit_id = currency,
      unit_element = example_element i ''unit'',
      unit_aspect_value =
        \<lparr>numerator_measures = [QName currency ''http://www.xbrl.org/2003/iso4217''],
         denominator_measures = []\<rparr>\<rparr>"

definition example_concept :: xbrl_concept where
  "example_concept =
     \<lparr>concept_name = ''mi1'', concept_target_namespace = ''http://www.eba.europa.eu/xbrl/crr/dict/met'',
      concept_is_item = True, concept_is_numeric = True, concept_is_monetary = True\<rparr>"

definition example_fact :: "nat \<Rightarrow> xbrl_unit \<Rightarrow> xbrl_fact" where
  "example_fact i u =
     \<lparr>fact_element = example_element i ''mi1'',
      fact_id = None,
      fact_concept = example_concept,
      fact_context = example_context 1 ''c1'' ''2020-12-31'',
      fact_unit = Some u,
      fact_xml_lang = None,
      fact_precision = PyNone,
      fact_xsi_nil = False,
      fact_normalized_value = ''100''\<rparr>"

definition example_facts :: "xbrl_fact list" where
  "example_facts =
     [example_fact 11 (example_unit 7 ''EUR''), example_fact 12 (example_unit 8 ''USD''),
      example_fact 13 (example_unit 8 ''USD'')]"

definition example_instance :: xbrl_instance where
  "example_instance =
     \<lparr>uri = ''instance.xbrl'',
      document = \<lparr>character_encoding_scheme = ''utf-8'', standalone = None\<rparr>,
      document_element = example_element 0 ''xbrl'',
      dts = \<lparr>tables = [], taxonomy_schemas = [], concepts = []\<rparr>,
      schema_refs = [\<lparr>schema_ref_xlink_href = ''http://www.eba.europa.eu/eu/fr/xbrl/crr/fws/corep/mod/corep.xsd''\<rparr>],
      linkbase_refs = [],
      footnote_links = [],
      contexts = [example_context 1 ''c1'' ''2020-12-31'', example_context 3 ''c2'' ''2020-12-31'',
                  example_context 5 ''c3'' ''2020-06-30''],
      units = [example_unit 7 ''EUR'', example_unit 8 ''USD''],
      facts = example_facts,
      child_items = example_facts\<rparr>"

definition example_job :: job where
  "example_job = \<lparr>script_params = Map.empty, options = Map.empty, job_error_log = []\<rparr>"

text \<open>
  The same instance with a schema reference that does not start with \<^verbatim>\<open>http://\<close>,
  and an instance with one schema reference and no context, unit or fact.
\<close>

definition https_ref_instance :: xbrl_instance where
  "https_ref_instance =
     example_instance\<lparr>schema_refs :=
       [\<lparr>schema_ref_xlink_href = ''https://www.eba.europa.eu/eu/fr/xbrl/crr/fws/corep/mod/corep.xsd''\<rparr>]\<rparr>"

definition no_context_instance :: xbrl_instance where
  "no_context_instance = example_instance\<lparr>contexts := [], units := [], facts := [], child_items := []\<rparr>"

text \<open>
  An instance for the length limits. Its contexts have an \<^verbatim>\<open>id\<close> of 50 letters, one
  of 51 letters, and one of 50 times the letter U+00E9 (50 code points, 100 bytes in
  UTF-8). Its facts are two string facts, of 100 and of 101 letters.
\<close>

definition limit_context :: "nat \<Rightarrow> py_str \<Rightarrow> xbrl_context" where
  "limit_context i ident = (example_context i [] ''2020-12-31'')\<lparr>context_id := ident\<rparr>"

definition string_concept :: xbrl_concept where
  "string_concept =
     \<lparr>concept_name = ''si1'', concept_target_namespace = ''http://www.eba.europa.eu/xbrl/crr/dict/met'',
      concept_is_item = True, concept_is_numeric = False, concept_is_monetary = False\<rparr>"

definition string_fact :: "nat \<Rightarrow> py_str \<Rightarrow> xbrl_fact" where
  "string_fact i v =
     \<lparr>fact_element =
        Element i ''si1'' ''http://www.eba.europa.eu/xbrl/crr/dict/met'' (Some ''eba_met'')
          (XsdString v) [] [] [],
      fact_id = None,
      fact_concept = string_concept,
      fact_context = limit_context 21 (replicate 50 97),
      fact_unit = None,
      fact_xml_lang = None,
      fact_precision = PyNone,
      fact_xsi_nil = False,
      fact_normalized_value = ''text''\<rparr>"

definition limit_instance :: xbrl_instance where
  "limit_instance =
     example_instance
       \<lparr>contexts := [limit_context 21 (replicate 50 97), limit_context 23 (replicate 51 97),
                     limit_context 25 (replicate 50 233)],
        units := [],
        facts := [string_fact 31 (replicate 100 97), string_fact 32 (replicate 101 97)],
        child_items := [string_fact 31 (replicate 100 97), string_fact 32 (replicate 101 97)]\<rparr>"

section \<open>The document walker\<close>

lemma dfs_step_Nil: "dfs_step [] = None"
  by (simp add: dfs_step_def)

lemma dfs_step_snoc: "dfs_step (stack @ [elem]) = Some (elem, stack @ element_children elem)"
  by (simp add: dfs_step_def)

lemma dfs_loop_Nil: "dfs_loop [] = []"
  by (subst dfs_loop.simps) (simp add: dfs_step_Nil)

lemma dfs_loop_snoc: "dfs_loop (stack @ [elem]) = elem # dfs_loop (stack @ element_children elem)"
  by (subst dfs_loop.simps) (simp add: dfs_step_snoc)

lemma size_children_less: "size_list size (element_children y) < size y"
  by (cases y) simp

text \<open>What lies below the top of the stack is walked after everything above it.\<close>

lemma dfs_loop_append: "dfs_loop (below @ stack) = dfs_loop stack @ dfs_loop below"
proof (induction "size_list size stack" arbitrary: stack rule: less_induct)
  case less
  show ?case
  proof (cases stack rule: rev_cases)
    case Nil
    then show ?thesis by (simp add: dfs_loop_Nil)
  next
    case (snoc ys y)
    have smaller: "size_list size (ys @ element_children y) < size_list size stack"
      using snoc size_children_less [of y] by simp
    have "dfs_loop (below @ stack) = y # dfs_loop (below @ ys @ element_children y)"
      using snoc dfs_loop_snoc [of "below @ ys" y] by simp
    also have "\<dots> = y # dfs_loop (ys @ element_children y) @ dfs_loop below"
      using less [OF smaller] by simp
    also have "\<dots> = dfs_loop stack @ dfs_loop below"
      using snoc dfs_loop_snoc [of ys y] by simp
    finally show ?thesis .
  qed
qed

lemma dfs_loop_stack: "dfs_loop stack = concat (map dfs (rev stack))"
proof (induction stack)
  case Nil
  show ?case by (simp add: dfs_loop_Nil)
next
  case (Cons e stack)
  have "dfs_loop (e # stack) = dfs_loop ([e] @ stack)" by simp
  also have "\<dots> = dfs_loop stack @ dfs_loop [e]" by (rule dfs_loop_append)
  finally show ?case using Cons by (simp add: dfs_def)
qed

lemma dfs_unfold: "dfs elem = elem # concat (map dfs (rev (element_children elem)))"
proof -
  have "dfs elem = elem # dfs_loop (element_children elem)"
    using dfs_loop_snoc [of "[]" elem] by (simp add: dfs_def)
  then show ?thesis by (simp only: dfs_loop_stack)
qed

lemma mset_dfs: "mset (dfs elem) = mset (elements_of elem)"
proof (induction elem)
  case (Element i n ns p v as nas cs)
  have "mset (concat (map dfs (rev cs))) = mset (concat (map elements_of cs))"
    using Element.IH
  proof (induction cs)
    case Nil
    show ?case by simp
  next
    case (Cons c cs)
    then show ?case by simp
  qed
  then show ?case
    by (subst dfs_unfold) simp
qed

lemma dfs_not_Nil: "dfs elem \<noteq> []"
  by (subst dfs_unfold) simp

text \<open>
  C6. The walker is total: for every root it returns a finite sequence. One step of
  the generator yields the root, before any child is visited. The sequence is the root
  followed by the walks of its children's subtrees, one whole subtree after the other
  (depth first, every element before its descendants), the children taken from the
  last to the first. It holds every element of the tree exactly once. As a function of
  the root alone, a second call gives the same sequence.
\<close>

theorem dfs_preorder:
  "dfs_step [root] = Some (root, element_children root)
   \<and> dfs root = root # concat (map dfs (rev (element_children root)))
   \<and> mset (dfs root) = mset (elements_of root)
   \<and> length (dfs root) = length (elements_of root)"
proof -
  have "dfs_step ([] @ [root]) = Some (root, [] @ element_children root)"
    by (rule dfs_step_snoc)
  moreover have "length (dfs root) = length (elements_of root)"
    using mset_dfs [of root] by (metis size_mset)
  ultimately show ?thesis
    using dfs_unfold [of root] mset_dfs [of root] by simp
qed

section \<open>Every rule only appends to the log\<close>

text \<open>
  A rule run on a log \<open>l @ l2\<close> does what it does on \<open>l2\<close>, with \<open>l\<close> put before the
  log it leaves: no rule reads the log, and none removes an entry.
\<close>

lemma prepend_simps:
  "prepend l (Inl (e, l2)) = Inl (e, l @ l2)"
  "prepend l (Inr l2) = Inr (l @ l2)"
  by (simp_all add: prepend_def)

lemma report_append: "report (l @ l2) e = l @ report l2 e"
  by (simp add: report_def)

lemma fold_append_log:
  assumes "\<And>x l l2. step x (l @ l2) = l @ step x l2"
  shows "fold step xs (l @ l2) = l @ fold step xs (l2 :: xbrl_error list)"
  using assms by (induction xs arbitrary: l2) simp_all

lemma eba_1_4_append: "eba_1_4 inst (l @ l2) = prepend l (eba_1_4 inst l2)"
  by (simp add: eba_1_4_def prepend_simps fold_append_log report_append Let_def
        split: option.splits list.splits)

lemma eba_1_13_append: "eba_1_13 inst (l @ l2) = prepend l (eba_1_13 inst l2)"
  by (simp add: eba_1_13_def prepend_simps fold_append_log report_append Let_def
        split: option.splits list.splits)

lemma eba_1_14_append: "eba_1_14 inst (l @ l2) = prepend l (eba_1_14 inst l2)"
  by (simp add: eba_1_14_def prepend_simps fold_append_log report_append Let_def
        split: option.splits list.splits)

lemma eba_2_1_append: "eba_2_1 inst (l @ l2) = prepend l (eba_2_1 inst l2)"
  by (simp add: eba_2_1_def prepend_simps fold_append_log report_append Let_def
        split: option.splits list.splits)

lemma eba_2_2_append: "eba_2_2 inst (l @ l2) = prepend l (eba_2_2 inst l2)"
  by (simp add: eba_2_2_def prepend_simps fold_append_log report_append Let_def
        split: option.splits list.splits)

lemma eba_2_3_append: "eba_2_3 inst (l @ l2) = prepend l (eba_2_3 inst l2)"
  by (simp add: eba_2_3_def prepend_simps fold_append_log report_append Let_def
        split: option.splits list.splits)

lemma eba_2_4_append: "eba_2_4 inst (l @ l2) = prepend l (eba_2_4 inst l2)"
  by (simp add: eba_2_4_def prepend_simps fold_append_log report_append Let_def
        split: option.splits list.splits)

lemma eba_2_25_append: "eba_2_25 inst (l @ l2) = prepend l (eba_2_25 inst l2)"
  by (simp add: eba_2_25_def prepend_simps fold_append_log report_append Let_def
        split: option.splits list.splits)

lemma eba_2_9_append: "eba_2_9 inst (l @ l2) = prepend l (eba_2_9 inst l2)"
  by (simp add: eba_2_9_def prepend_simps fold_append_log report_append Let_def
        split: option.splits list.splits)

lemma eba_2_10_append: "eba_2_10 inst (l @ l2) = prepend l (eba_2_10 inst l2)"
  by (simp add: eba_2_10_def prepend_simps fold_append_log report_append Let_def
        split: option.splits list.splits)

lemma eba_2_11_append: "eba_2_11 inst (l @ l2) = prepend l (eba_2_11 inst l2)"
  by (simp add: eba_2_11_def prepend_simps fold_append_log report_append Let_def
        split: option.splits list.splits)

lemma eba_2_13_append: "eba_2_13 inst (l @ l2) = prepend l (eba_2_13 inst l2)"
  by (simp add: eba_2_13_def prepend_simps fold_append_log report_append Let_def
        split: option.splits list.splits)

lemma eba_2_14_append: "eba_2_14 inst (l @ l2) = prepend l (eba_2_14 inst l2)"
  by (simp add: eba_2_14_def prepend_simps fold_append_log report_append Let_def
        split: option.splits list.splits)

lemma eba_2_15_append: "eba_2_15 inst (l @ l2) = prepend l (eba_2_15 inst l2)"
  by (simp add: eba_2_15_def prepend_simps fold_append_log report_append Let_def
        split: option.splits list.splits)

lemma eba_2_17_append: "eba_2_17 inst (l @ l2) = prepend l (eba_2_17 inst l2)"
  by (simp add: eba_2_17_def prepend_simps fold_append_log report_append Let_def
        split: option.splits list.splits)

lemma eba_2_19_append: "eba_2_19 inst (l @ l2) = prepend l (eba_2_19 inst l2)"
  by (simp add: eba_2_19_def prepend_simps fold_append_log report_append Let_def
        split: option.splits list.splits)

lemma eba_2_22_append: "eba_2_22 inst (l @ l2) = prepend l (eba_2_22 inst l2)"
  by (simp add: eba_2_22_def prepend_simps fold_append_log report_append Let_def
        split: option.splits list.splits)

lemma eba_3_4_append: "eba_3_4 inst (l @ l2) = prepend l (eba_3_4 inst l2)"
  by (simp add: eba_3_4_def prepend_simps fold_append_log report_append Let_def
        split: option.splits list.splits)

lemma eba_3_5_append: "eba_3_5 inst (l @ l2) = prepend l (eba_3_5 inst l2)"
  by (simp add: eba_3_5_def prepend_simps fold_append_log report_append Let_def
        split: option.splits list.splits)

lemma eba_3_6_append: "eba_3_6 inst (l @ l2) = prepend l (eba_3_6 inst l2)"
  by (simp add: eba_3_6_def prepend_simps fold_append_log report_append Let_def
        split: option.splits list.splits)

lemma eba_3_7_append: "eba_3_7 inst (l @ l2) = prepend l (eba_3_7 inst l2)"
  by (simp add: eba_3_7_def prepend_simps fold_append_log report_append Let_def
        split: option.splits list.splits)

lemma eba_3_9_append: "eba_3_9 inst (l @ l2) = prepend l (eba_3_9 inst l2)"
  by (simp add: eba_3_9_def prepend_simps fold_append_log report_append Let_def
        split: option.splits list.splits)

lemma eba_1_15_append: "eba_1_15 inst opts (l @ l2) = prepend l (eba_1_15 inst opts l2)"
  by (simp add: eba_1_15_def prepend_simps report_append Let_def)

lemma eba_2_6_append: "eba_2_6 inst params (l @ l2) = prepend l (eba_2_6 inst params l2)"
  by (simp add: eba_2_6_def prepend_simps fold_append_log report_append Let_def split: sum.splits)

lemma eba_3_8_append: "eba_3_8 inst params (l @ l2) = prepend l (eba_3_8 inst params l2)"
  by (simp add: eba_3_8_def prepend_simps fold_append_log report_append Let_def
        split: sum.splits schema_value.splits)

lemma eba_1_6_loop_append:
  "eba_1_6_loop available fs used (l @ l2) = l @ eba_1_6_loop available fs used l2"
  by (induction fs arbitrary: used l2) (simp_all add: report_append Let_def)

lemma eba_1_6_append: "eba_1_6 inst (l @ l2) = prepend l (eba_1_6 inst l2)"
  by (simp add: eba_1_6_def prepend_simps eba_1_6_loop_append Let_def)

lemma eba_2_7_loop_append:
  "eba_2_7_loop inst cs m (l @ l2) = l @ eba_2_7_loop inst cs m l2"
  by (induction cs arbitrary: m l2) (simp_all add: report_append Let_def split: list.splits)

lemma eba_2_7_append: "eba_2_7 inst (l @ l2) = prepend l (eba_2_7 inst l2)"
  by (simp add: eba_2_7_def prepend_simps eba_2_7_loop_append)

lemma eba_2_16_loop_append:
  "snd (eba_2_16_loop fs m (l @ l2)) = l @ snd (eba_2_16_loop fs m l2)"
  by (induction fs arbitrary: m l2) (simp_all add: report_append Let_def)

lemma eba_2_16_append: "eba_2_16 inst (l @ l2) = prepend l (eba_2_16 inst l2)"
  by (simp add: eba_2_16_def prepend_simps fold_append_log eba_2_16_loop_append)

lemma eba_2_21_loop_append:
  "eba_2_21_loop us m (l @ l2) = l @ eba_2_21_loop us m l2"
  by (induction us arbitrary: m l2) (simp_all add: report_append Let_def split: list.splits)

lemma eba_2_21_append: "eba_2_21 inst (l @ l2) = prepend l (eba_2_21 inst l2)"
  by (simp add: eba_2_21_def prepend_simps eba_2_21_loop_append)

lemma eba_3_1_single_currency_append:
  "eba_3_1_single_currency fs single_unit (l @ l2) = l @ eba_3_1_single_currency fs single_unit l2"
  by (induction fs arbitrary: single_unit l2) (simp_all add: report_append)

lemma eba_3_1_denomination_append:
  "eba_3_1_denomination cus fs (l @ l2) = prepend l (eba_3_1_denomination cus fs l2)"
proof (cases cus)
  case None
  show ?thesis
    unfolding None
    by (induction fs arbitrary: l2) (simp_all add: prepend_simps)
next
  case (Some c)
  show ?thesis
    unfolding Some
    by (induction fs arbitrary: l2)
      (simp_all add: report_append prepend_simps Let_def split: option.splits)
qed

lemma eba_3_1_append: "eba_3_1 inst (l @ l2) = prepend l (eba_3_1 inst l2)"
proof -
  let ?cus = "resolve_concept (dts inst) (QName ''CUS'' ''http://www.eba.europa.eu/xbrl/crr/dict/dim'')"
  show ?thesis
    unfolding eba_3_1_def Let_def eba_3_1_denomination_append
    by (cases "resolve_concept (dts inst) (QName ''CCA'' ''http://www.eba.europa.eu/xbrl/crr/dict/dim'')";
        cases "resolve_concept (dts inst) (QName ''x1'' ''http://www.eba.europa.eu/xbrl/crr/dict/dom/CA'')")
      (auto simp: prepend_def eba_3_1_single_currency_append split: sum.splits)
qed

lemma eba_3_2_loop_append:
  "eba_3_2_loop fs (l @ l2) = prepend l (eba_3_2_loop fs l2)"
  by (induction fs arbitrary: l2)
    (simp_all add: report_append prepend_simps split: option.splits)

lemma eba_3_2_append: "eba_3_2 inst (l @ l2) = prepend l (eba_3_2 inst l2)"
  by (simp add: eba_3_2_def eba_3_2_loop_append)

lemma eba_3_10_loop_append:
  "eba_3_10_loop as m (l @ l2) = l @ eba_3_10_loop as m l2"
  by (induction as arbitrary: m l2) (simp_all add: report_append Let_def)

lemma eba_3_10_append: "eba_3_10 inst (l @ l2) = prepend l (eba_3_10 inst l2)"
  by (simp add: eba_3_10_def prepend_simps eba_3_10_loop_append)

lemma run_rules_append:
  assumes "\<And>rule l l2. rule \<in> set rules \<Longrightarrow> rule (l @ l2) = prepend l (rule l2)"
  shows "run_rules rules (l @ l2) = prepend l (run_rules rules l2)"
  using assms
proof (induction rules arbitrary: l2)
  case Nil
  show ?case by (simp add: prepend_simps)
next
  case (Cons rule rules)
  have head: "rule (l @ l2) = prepend l (rule l2)"
    using Cons.prems by simp
  have tail: "\<And>l3. run_rules rules (l @ l3) = prepend l (run_rules rules l3)"
    using Cons.IH Cons.prems by simp
  show ?case
    by (cases "rule l2") (auto simp: head prepend_simps tail)
qed

lemma eba_filing_rules_append:
  assumes "rule \<in> set (eba_filing_rules params opts inst)"
  shows "rule (l @ l2) = prepend l (rule l2)"
  using assms unfolding eba_filing_rules_def
  by (auto simp only: set_simps insert_iff empty_iff
        eba_1_4_append eba_1_6_append eba_1_13_append eba_1_14_append eba_1_15_append
        eba_2_1_append eba_2_2_append eba_2_3_append eba_2_4_append eba_2_25_append
        eba_2_6_append eba_2_7_append eba_2_9_append eba_2_10_append eba_2_11_append
        eba_2_13_append eba_2_14_append eba_2_15_append eba_2_16_append eba_2_17_append
        eba_2_19_append eba_2_21_append eba_2_22_append eba_3_1_append eba_3_2_append
        eba_3_4_append eba_3_5_append eba_3_6_append eba_3_7_append eba_3_8_append
        eba_3_9_append eba_3_10_append)

text \<open>
  A run of the dispatcher is the run on the empty log, with the job's log put before
  what it leaves; the script parameters and the options stay as they were.
\<close>

lemma check_eba_filing_rules_from_empty:
  "check_eba_filing_rules job inst =
     (case run_rules (eba_filing_rules (script_params job) (options job) inst) [] of
        Inl (e, found) \<Rightarrow> Inl (e, job\<lparr>job_error_log := job_error_log job @ found\<rparr>)
      | Inr found \<Rightarrow> Inr (job\<lparr>job_error_log := job_error_log job @ found\<rparr>))"
proof -
  let ?rules = "eba_filing_rules (script_params job) (options job) inst"
  have "run_rules ?rules (job_error_log job @ []) = prepend (job_error_log job) (run_rules ?rules [])"
    by (rule run_rules_append) (rule eba_filing_rules_append)
  then show ?thesis
    by (auto simp: check_eba_filing_rules_def prepend_def split: sum.splits)
qed

lemma appended_findings_check:
  "appended_findings job (check_eba_filing_rules job inst)
     = result_state (run_rules (eba_filing_rules (script_params job) (options job) inst) [])"
  by (simp add: check_eba_filing_rules_from_empty appended_findings_def result_state_def
        split: sum.splits)

lemma raised_check:
  "raised (check_eba_filing_rules job inst)
     = raised (run_rules (eba_filing_rules (script_params job) (options job) inst) [])"
  by (simp add: check_eba_filing_rules_from_empty raised_def split: sum.splits)

lemma result_state_check:
  "script_params (result_state (check_eba_filing_rules job inst)) = script_params job"
  "options (result_state (check_eba_filing_rules job inst)) = options job"
  "job_error_log (result_state (check_eba_filing_rules job inst))
     = job_error_log job @ appended_findings job (check_eba_filing_rules job inst)"
  by (simp_all add: check_eba_filing_rules_from_empty appended_findings_def result_state_def
        split: sum.splits)

text \<open>
  C7. Run the dispatcher on a job and an instance, then run it again on the job as the
  first run left it (the findings of the first run are now in its log) and the same
  instance. The second run appends the same findings in the same order and ends the
  same way (normally, or with the same exception). The first run leaves the script
  parameters and the options as they were and keeps the log it found as a prefix.
\<close>

theorem check_eba_filing_rules_twice:
  "appended_findings (result_state (check_eba_filing_rules job inst))
       (check_eba_filing_rules (result_state (check_eba_filing_rules job inst)) inst)
     = appended_findings job (check_eba_filing_rules job inst)
   \<and> raised (check_eba_filing_rules (result_state (check_eba_filing_rules job inst)) inst)
     = raised (check_eba_filing_rules job inst)
   \<and> script_params (result_state (check_eba_filing_rules job inst)) = script_params job
   \<and> options (result_state (check_eba_filing_rules job inst)) = options job
   \<and> job_error_log (result_state (check_eba_filing_rules job inst))
     = job_error_log job @ appended_findings job (check_eba_filing_rules job inst)"
  by (simp only: appended_findings_check raised_check result_state_check)

section \<open>Duplicate contexts and units\<close>

lemma duplicate_context_finding_simps:
  "duplicate_context_finding (duplicate_context_error c c2) = Some (c, c2)"
  "duplicate_context_finding (unused_context_error c) = None"
  by (simp_all add: duplicate_context_finding_def duplicate_detail_objs_def
        duplicate_context_error_def unused_context_error_def)

lemma duplicate_context_finding_of_simps:
  "duplicate_context_finding_of s (duplicate_context_error c c2) = (ConstraintSet_context c = s)"
  "duplicate_context_finding_of s (unused_context_error c) = False"
  by (simp_all add: duplicate_context_finding_of_def duplicate_context_finding_simps)

text \<open>
  The duplicate findings of the loop for one constraint set \<open>s\<close>, from any state of the
  dictionary: when \<open>s\<close> already has a first context, every context of \<open>s\<close> is reported
  against it; otherwise the first context of \<open>s\<close> is stored and every later one is
  reported against it.
\<close>

lemma eba_2_7_loop_findings:
  "\<exists>found. eba_2_7_loop inst cs m l = l @ found
     \<and> filter (duplicate_context_finding_of s) found
         = (case m s of
              Some (d # ds) \<Rightarrow> map (\<lambda>x. duplicate_context_error x d) (filter (\<lambda>y. ConstraintSet_context y = s) cs)
            | _ \<Rightarrow> map (\<lambda>x. duplicate_context_error x (hd (filter (\<lambda>y. ConstraintSet_context y = s) cs)))
                     (tl (filter (\<lambda>y. ConstraintSet_context y = s) cs)))"
proof (induction cs arbitrary: m l)
  case Nil
  show ?case by (simp split: option.splits list.splits)
next
  case (Cons c cs)
  let ?k = "ConstraintSet_context c"
  let ?l1 = "if facts_filter_context inst c = [] then report l (unused_context_error c) else l"
  have l1: "\<exists>pre. ?l1 = l @ pre \<and> filter (duplicate_context_finding_of s) pre = []"
    by (simp add: report_def duplicate_context_finding_of_simps)
  then obtain pre where pre: "?l1 = l @ pre" "filter (duplicate_context_finding_of s) pre = []"
    by blast
  show ?case
  proof (cases "\<exists>d ds. m ?k = Some (d # ds)")
    case True
    then obtain d ds where d: "m ?k = Some (d # ds)" by blast
    have step: "eba_2_7_loop inst (c # cs) m l
                  = eba_2_7_loop inst cs m (report ?l1 (duplicate_context_error c d))"
      using d by (simp add: setdefault_def Let_def)
    obtain found where found: "eba_2_7_loop inst cs m (report ?l1 (duplicate_context_error c d))
                                  = report ?l1 (duplicate_context_error c d) @ found"
      and filt: "filter (duplicate_context_finding_of s) found
         = (case m s of
              Some (d # ds) \<Rightarrow> map (\<lambda>x. duplicate_context_error x d) (filter (\<lambda>y. ConstraintSet_context y = s) cs)
            | _ \<Rightarrow> map (\<lambda>x. duplicate_context_error x (hd (filter (\<lambda>y. ConstraintSet_context y = s) cs)))
                     (tl (filter (\<lambda>y. ConstraintSet_context y = s) cs)))"
      using Cons.IH [of m "report ?l1 (duplicate_context_error c d)"] by blast
    have "eba_2_7_loop inst (c # cs) m l = l @ (pre @ [duplicate_context_error c d] @ found)"
      using step found pre(1) by (simp add: report_def)
    moreover have "filter (duplicate_context_finding_of s) (pre @ [duplicate_context_error c d] @ found)
         = (case m s of
              Some (d # ds) \<Rightarrow> map (\<lambda>x. duplicate_context_error x d) (filter (\<lambda>y. ConstraintSet_context y = s) (c # cs))
            | _ \<Rightarrow> map (\<lambda>x. duplicate_context_error x (hd (filter (\<lambda>y. ConstraintSet_context y = s) (c # cs))))
                     (tl (filter (\<lambda>y. ConstraintSet_context y = s) (c # cs))))"
      using pre(2) filt d
      by (cases "?k = s") (auto simp: duplicate_context_finding_of_simps split: option.splits list.splits)
    ultimately show ?thesis by blast
  next
    case False
    then have none: "m ?k = None \<or> m ?k = Some []"
      by (cases "m ?k") (auto intro: list.exhaust)
    let ?m' = "m(?k \<mapsto> [c])"
    have step: "eba_2_7_loop inst (c # cs) m l = eba_2_7_loop inst cs ?m' ?l1"
      using none by (auto simp: setdefault_def Let_def)
    obtain found where found: "eba_2_7_loop inst cs ?m' ?l1 = ?l1 @ found"
      and filt: "filter (duplicate_context_finding_of s) found
         = (case ?m' s of
              Some (d # ds) \<Rightarrow> map (\<lambda>x. duplicate_context_error x d) (filter (\<lambda>y. ConstraintSet_context y = s) cs)
            | _ \<Rightarrow> map (\<lambda>x. duplicate_context_error x (hd (filter (\<lambda>y. ConstraintSet_context y = s) cs)))
                     (tl (filter (\<lambda>y. ConstraintSet_context y = s) cs)))"
      using Cons.IH [of ?m' ?l1] by blast
    have "eba_2_7_loop inst (c # cs) m l = l @ (pre @ found)"
      using step found pre(1) by simp
    moreover have "filter (duplicate_context_finding_of s) (pre @ found)
         = (case m s of
              Some (d # ds) \<Rightarrow> map (\<lambda>x. duplicate_context_error x d) (filter (\<lambda>y. ConstraintSet_context y = s) (c # cs))
            | _ \<Rightarrow> map (\<lambda>x. duplicate_context_error x (hd (filter (\<lambda>y. ConstraintSet_context y = s) (c # cs))))
                     (tl (filter (\<lambda>y. ConstraintSet_context y = s) (c # cs))))"
      using pre(2) filt none False
      by (cases "?k = s") (auto split: option.splits list.splits)
    ultimately show ?thesis by blast
  qed
qed

lemma duplicate_unit_finding_simps:
  "duplicate_unit_finding (duplicate_unit_error u u2) = Some (u, u2)"
  by (simp add: duplicate_unit_finding_def duplicate_detail_objs_def duplicate_unit_error_def)

lemma duplicate_unit_finding_of_simps:
  "duplicate_unit_finding_of s (duplicate_unit_error u u2) = (ConstraintSet_unit u = s)"
  by (simp add: duplicate_unit_finding_of_def duplicate_unit_finding_simps)

lemma eba_2_21_loop_findings:
  "\<exists>found. eba_2_21_loop us m l = l @ found
     \<and> filter (duplicate_unit_finding_of s) found
         = (case m s of
              Some (d # ds) \<Rightarrow> map (\<lambda>x. duplicate_unit_error x d) (filter (\<lambda>y. ConstraintSet_unit y = s) us)
            | _ \<Rightarrow> map (\<lambda>x. duplicate_unit_error x (hd (filter (\<lambda>y. ConstraintSet_unit y = s) us)))
                     (tl (filter (\<lambda>y. ConstraintSet_unit y = s) us)))"
proof (induction us arbitrary: m l)
  case Nil
  show ?case by (simp split: option.splits list.splits)
next
  case (Cons u us)
  let ?k = "ConstraintSet_unit u"
  show ?case
  proof (cases "\<exists>d ds. m ?k = Some (d # ds)")
    case True
    then obtain d ds where d: "m ?k = Some (d # ds)" by blast
    have step: "eba_2_21_loop (u # us) m l = eba_2_21_loop us m (report l (duplicate_unit_error u d))"
      using d by (simp add: setdefault_def Let_def)
    obtain found where found: "eba_2_21_loop us m (report l (duplicate_unit_error u d))
                                  = report l (duplicate_unit_error u d) @ found"
      and filt: "filter (duplicate_unit_finding_of s) found
         = (case m s of
              Some (d # ds) \<Rightarrow> map (\<lambda>x. duplicate_unit_error x d) (filter (\<lambda>y. ConstraintSet_unit y = s) us)
            | _ \<Rightarrow> map (\<lambda>x. duplicate_unit_error x (hd (filter (\<lambda>y. ConstraintSet_unit y = s) us)))
                     (tl (filter (\<lambda>y. ConstraintSet_unit y = s) us)))"
      using Cons.IH [of m "report l (duplicate_unit_error u d)"] by blast
    have "eba_2_21_loop (u # us) m l = l @ ([duplicate_unit_error u d] @ found)"
      using step found by (simp add: report_def)
    moreover have "filter (duplicate_unit_finding_of s) ([duplicate_unit_error u d] @ found)
         = (case m s of
              Some (d # ds) \<Rightarrow> map (\<lambda>x. duplicate_unit_error x d) (filter (\<lambda>y. ConstraintSet_unit y = s) (u # us))
            | _ \<Rightarrow> map (\<lambda>x. duplicate_unit_error x (hd (filter (\<lambda>y. ConstraintSet_unit y = s) (u # us))))
                     (tl (filter (\<lambda>y. ConstraintSet_unit y = s) (u # us))))"
      using filt d
      by (cases "?k = s") (auto simp: duplicate_unit_finding_of_simps split: option.splits list.splits)
    ultimately show ?thesis by blast
  next
    case False
    then have none: "m ?k = None \<or> m ?k = Some []"
      by (cases "m ?k") (auto intro: list.exhaust)
    let ?m' = "m(?k \<mapsto> [u])"
    have step: "eba_2_21_loop (u # us) m l = eba_2_21_loop us ?m' l"
      using none by (auto simp: setdefault_def Let_def)
    obtain found where found: "eba_2_21_loop us ?m' l = l @ found"
      and filt: "filter (duplicate_unit_finding_of s) found
         = (case ?m' s of
              Some (d # ds) \<Rightarrow> map (\<lambda>x. duplicate_unit_error x d) (filter (\<lambda>y. ConstraintSet_unit y = s) us)
            | _ \<Rightarrow> map (\<lambda>x. duplicate_unit_error x (hd (filter (\<lambda>y. ConstraintSet_unit y = s) us)))
                     (tl (filter (\<lambda>y. ConstraintSet_unit y = s) us)))"
      using Cons.IH [of ?m' l] by blast
    have "eba_2_21_loop (u # us) m l = l @ found"
      using step found by simp
    moreover have "filter (duplicate_unit_finding_of s) found
         = (case m s of
              Some (d # ds) \<Rightarrow> map (\<lambda>x. duplicate_unit_error x d) (filter (\<lambda>y. ConstraintSet_unit y = s) (u # us))
            | _ \<Rightarrow> map (\<lambda>x. duplicate_unit_error x (hd (filter (\<lambda>y. ConstraintSet_unit y = s) (u # us))))
                     (tl (filter (\<lambda>y. ConstraintSet_unit y = s) (u # us))))"
      using filt none False
      by (cases "?k = s") (auto split: option.splits list.splits)
    ultimately show ?thesis by blast
  qed
qed

lemma tl_filter_distinct:
  "distinct (map f xs) \<Longrightarrow> tl (filter (\<lambda>x. f x = s) xs) = []"
proof (induction xs)
  case Nil
  show ?case by simp
next
  case (Cons x xs)
  show ?case
  proof (cases "f x = s")
    case True
    have "\<forall>y\<in>set xs. f y \<noteq> s"
      using True Cons.prems by (auto simp: image_iff)
    then have "filter (\<lambda>y. f y = s) xs = []"
      by (simp add: filter_empty_conv)
    then show ?thesis using True by simp
  next
    case False
    then show ?thesis using Cons by simp
  qed
qed

lemma eba_2_7_findings:
  "\<exists>found. eba_2_7 inst l = Inr (l @ found)
     \<and> (\<forall>s. filter (duplicate_context_finding_of s) found
              = map (\<lambda>x. duplicate_context_error x (hd (contexts_with inst s))) (tl (contexts_with inst s)))"
proof -
  obtain found where found: "eba_2_7_loop inst (contexts inst) Map.empty l = l @ found"
    using eba_2_7_loop_findings [of inst "contexts inst" Map.empty l] by blast
  have "filter (duplicate_context_finding_of s) found
          = map (\<lambda>x. duplicate_context_error x (hd (contexts_with inst s))) (tl (contexts_with inst s))" for s
    using eba_2_7_loop_findings [of inst "contexts inst" Map.empty l s] found
    by (auto simp: contexts_with_def)
  then show ?thesis
    using found by (auto simp: eba_2_7_def)
qed

lemma eba_2_21_findings:
  "\<exists>found. eba_2_21 inst l = Inr (l @ found)
     \<and> (\<forall>s. filter (duplicate_unit_finding_of s) found
              = map (\<lambda>x. duplicate_unit_error x (hd (units_with inst s))) (tl (units_with inst s)))"
proof -
  obtain found where found: "eba_2_21_loop (units inst) Map.empty l = l @ found"
    using eba_2_21_loop_findings [of "units inst" Map.empty l] by blast
  have "filter (duplicate_unit_finding_of s) found
          = map (\<lambda>x. duplicate_unit_error x (hd (units_with inst s))) (tl (units_with inst s))" for s
    using eba_2_21_loop_findings [of "units inst" Map.empty l s] found
    by (auto simp: units_with_def)
  then show ?thesis
    using found by (auto simp: eba_2_21_def)
qed

lemma no_duplicate_context_findings:
  assumes "\<forall>s. filter (duplicate_context_finding_of s) found = []"
  shows "filter (\<lambda>e. duplicate_context_finding e \<noteq> None) found = []"
proof -
  have "duplicate_context_finding e = None" if "e \<in> set found" for e
  proof (cases "duplicate_context_finding e")
    case None
    then show ?thesis .
  next
    case (Some p)
    then have "e \<in> set (filter (duplicate_context_finding_of (ConstraintSet_context (fst p))) found)"
      using that by (cases p) (simp add: duplicate_context_finding_of_def)
    then show ?thesis using assms by simp
  qed
  then show ?thesis by (simp add: filter_empty_conv)
qed

lemma no_duplicate_unit_findings:
  assumes "\<forall>s. filter (duplicate_unit_finding_of s) found = []"
  shows "filter (\<lambda>e. duplicate_unit_finding e \<noteq> None) found = []"
proof -
  have "duplicate_unit_finding e = None" if "e \<in> set found" for e
  proof (cases "duplicate_unit_finding e")
    case None
    then show ?thesis .
  next
    case (Some p)
    then have "e \<in> set (filter (duplicate_unit_finding_of (ConstraintSet_unit (fst p))) found)"
      using that by (cases p) (simp add: duplicate_unit_finding_of_def)
    then show ?thesis using assms by simp
  qed
  then show ?thesis by (simp add: filter_empty_conv)
qed

text \<open>
  C1. The duplicate-context check returns normally, and among the findings it appends,
  those about the contexts of one constraint set \<open>s\<close> are exactly one per context of
  \<open>s\<close> after the first, in document order, each naming the first context of \<open>s\<close> as
  the one it duplicates: N - 1 findings for N contexts. When no two contexts have equal
  constraint sets there is no duplicate finding at all. The same holds of the
  duplicate-unit check over the units.
\<close>

theorem duplicate_contexts_and_units:
  "(\<exists>found. eba_2_7 inst l = Inr (l @ found)
      \<and> (\<forall>s. filter (duplicate_context_finding_of s) found
               = map (\<lambda>x. duplicate_context_error x (hd (contexts_with inst s))) (tl (contexts_with inst s))
             \<and> length (filter (duplicate_context_finding_of s) found) = length (contexts_with inst s) - 1)
      \<and> (distinct (map ConstraintSet_context (contexts inst))
           \<longrightarrow> filter (\<lambda>e. duplicate_context_finding e \<noteq> None) found = []))
   \<and> (\<exists>found. eba_2_21 inst l = Inr (l @ found)
      \<and> (\<forall>s. filter (duplicate_unit_finding_of s) found
               = map (\<lambda>x. duplicate_unit_error x (hd (units_with inst s))) (tl (units_with inst s))
             \<and> length (filter (duplicate_unit_finding_of s) found) = length (units_with inst s) - 1)
      \<and> (distinct (map ConstraintSet_unit (units inst))
           \<longrightarrow> filter (\<lambda>e. duplicate_unit_finding e \<noteq> None) found = []))"
proof
  obtain found where run: "eba_2_7 inst l = Inr (l @ found)"
    and groups: "\<And>s. filter (duplicate_context_finding_of s) found
              = map (\<lambda>x. duplicate_context_error x (hd (contexts_with inst s))) (tl (contexts_with inst s))"
    using eba_2_7_findings [of inst l] by blast
  have "filter (\<lambda>e. duplicate_context_finding e \<noteq> None) found = []"
    if "distinct (map ConstraintSet_context (contexts inst))"
    using that groups
    by (intro no_duplicate_context_findings) (simp add: contexts_with_def tl_filter_distinct)
  then show "\<exists>found. eba_2_7 inst l = Inr (l @ found)
      \<and> (\<forall>s. filter (duplicate_context_finding_of s) found
               = map (\<lambda>x. duplicate_context_error x (hd (contexts_with inst s))) (tl (contexts_with inst s))
             \<and> length (filter (duplicate_context_finding_of s) found) = length (contexts_with inst s) - 1)
      \<and> (distinct (map ConstraintSet_context (contexts inst))
           \<longrightarrow> filter (\<lambda>e. duplicate_context_finding e \<noteq> None) found = [])"
    using run groups by (intro exI [of _ found]) simp
next
  obtain found where run: "eba_2_21 inst l = Inr (l @ found)"
    and groups: "\<And>s. filter (duplicate_unit_finding_of s) found
              = map (\<lambda>x. duplicate_unit_error x (hd (units_with inst s))) (tl (units_with inst s))"
    using eba_2_21_findings [of inst l] by blast
  have "filter (\<lambda>e. duplicate_unit_finding e \<noteq> None) found = []"
    if "distinct (map ConstraintSet_unit (units inst))"
    using that groups
    by (intro no_duplicate_unit_findings) (simp add: units_with_def tl_filter_distinct)
  then show "\<exists>found. eba_2_21 inst l = Inr (l @ found)
      \<and> (\<forall>s. filter (duplicate_unit_finding_of s) found
               = map (\<lambda>x. duplicate_unit_error x (hd (units_with inst s))) (tl (units_with inst s))
             \<and> length (filter (duplicate_unit_finding_of s) found) = length (units_with inst s) - 1)
      \<and> (distinct (map ConstraintSet_unit (units inst))
           \<longrightarrow> filter (\<lambda>e. duplicate_unit_finding e \<noteq> None) found = [])"
    using run groups by (intro exI [of _ found]) simp
qed

theorem duplicate_contexts_and_units_witness:
  "distinct (map ConstraintSet_context
      (contexts (example_instance\<lparr>contexts := [example_context 1 ''c1'' ''2020-12-31'',
                                               example_context 5 ''c3'' ''2020-06-30'']\<rparr>)))
   \<and> distinct (map ConstraintSet_unit (units example_instance))
   \<and> (\<exists>found. eba_2_7 (example_instance\<lparr>contexts := [example_context 1 ''c1'' ''2020-12-31'',
                                                      example_context 5 ''c3'' ''2020-06-30'']\<rparr>) []
                  = Inr found
          \<and> filter (\<lambda>e. duplicate_context_finding e \<noteq> None) found = [])
   \<and> (\<exists>found. eba_2_21 example_instance [] = Inr found
          \<and> filter (\<lambda>e. duplicate_unit_finding e \<noteq> None) found = [])
   \<and> (\<exists>found. eba_2_7 example_instance [] = Inr found
          \<and> filter (duplicate_context_finding_of (ConstraintSet_context (example_context 1 ''c1'' ''2020-12-31''))) found
              = [duplicate_context_error (example_context 3 ''c2'' ''2020-12-31'')
                   (example_context 1 ''c1'' ''2020-12-31'')])"
proof -
  let ?I = "example_instance\<lparr>contexts := [example_context 1 ''c1'' ''2020-12-31'',
                                           example_context 5 ''c3'' ''2020-06-30'']\<rparr>"
  have d1: "distinct (map ConstraintSet_context (contexts ?I))"
    by (simp add: example_context_def ConstraintSet_context_def)
  have d2: "distinct (map ConstraintSet_unit (units example_instance))"
    by (simp add: example_instance_def example_unit_def ConstraintSet_unit_def QName_def)
  have g: "contexts_with example_instance (ConstraintSet_context (example_context 1 ''c1'' ''2020-12-31''))
             = [example_context 1 ''c1'' ''2020-12-31'', example_context 3 ''c2'' ''2020-12-31'']"
    by (simp add: contexts_with_def example_instance_def example_context_def ConstraintSet_context_def)
  have c: "\<exists>found. eba_2_7 ?I [] = Inr found
          \<and> filter (\<lambda>e. duplicate_context_finding e \<noteq> None) found = []"
    using duplicate_contexts_and_units [of ?I "[]"] d1 by auto
  have u: "\<exists>found. eba_2_21 example_instance [] = Inr found
          \<and> filter (\<lambda>e. duplicate_unit_finding e \<noteq> None) found = []"
    using duplicate_contexts_and_units [of example_instance "[]"] d2 by auto
  have p: "\<exists>found. eba_2_7 example_instance [] = Inr found
          \<and> filter (duplicate_context_finding_of (ConstraintSet_context (example_context 1 ''c1'' ''2020-12-31''))) found
              = [duplicate_context_error (example_context 3 ''c2'' ''2020-12-31'')
                   (example_context 1 ''c1'' ''2020-12-31'')]"
  proof -
    let ?s = "ConstraintSet_context (example_context 1 ''c1'' ''2020-12-31'')"
    obtain found where run: "eba_2_7 example_instance [] = Inr ([] @ found)"
      and groups: "\<forall>s. filter (duplicate_context_finding_of s) found
               = map (\<lambda>x. duplicate_context_error x (hd (contexts_with example_instance s)))
                   (tl (contexts_with example_instance s))
             \<and> length (filter (duplicate_context_finding_of s) found)
                 = length (contexts_with example_instance s) - 1"
      using duplicate_contexts_and_units [of example_instance "[]"] by blast
    have "filter (duplicate_context_finding_of ?s) found
            = map (\<lambda>x. duplicate_context_error x (hd (contexts_with example_instance ?s)))
                (tl (contexts_with example_instance ?s))"
      using groups by blast
    then have "filter (duplicate_context_finding_of ?s) found
            = [duplicate_context_error (example_context 3 ''c2'' ''2020-12-31'')
                 (example_context 1 ''c1'' ''2020-12-31'')]"
      unfolding g by simp
    then show ?thesis
      using run by simp
  qed
  show ?thesis
    using d1 d2 c u p by blast
qed

section \<open>Duplicate facts\<close>

lemma fact_finding_simps:
  "fact_finding (duplicate_fact_error f g) = Some (f, g)"
  "fact_finding (multi_unit_fact_error f g) = Some (f, g)"
  by (simp_all add: fact_finding_def duplicate_fact_error_def multi_unit_fact_error_def)

lemma fact_finding_of_expected:
  "fact_finding_of c k (expected_fact_finding f g) = (fact_concept f = c \<and> fact_key f = k)"
  by (simp add: fact_finding_of_def expected_fact_finding_def fact_finding_simps)

lemma eba_2_16_loop_Cons_new:
  assumes "m (fact_key f) = None"
  shows "eba_2_16_loop (f # fs) m l = eba_2_16_loop fs (m(fact_key f \<mapsto> f)) l"
  using assms by (simp add: setdefault_def fact_key_def Let_def)

lemma eba_2_16_loop_Cons_same:
  assumes "m (fact_key f) = Some f"
  shows "eba_2_16_loop (f # fs) m l = eba_2_16_loop fs m l"
  using assms by (simp add: setdefault_def fact_key_def Let_def)

lemma eba_2_16_loop_Cons_other:
  assumes "m (fact_key f) = Some g" and "g \<noteq> f"
  shows "eba_2_16_loop (f # fs) m l = eba_2_16_loop fs m (l @ [expected_fact_finding f g])"
  using assms by (simp add: setdefault_def fact_key_def Let_def expected_fact_finding_def report_def)

text \<open>
  The dictionary of the loop: a key that has a fact keeps it; a new key gets the first
  fact of the list that has this key.
\<close>

lemma eba_2_16_loop_dictionary:
  "fst (eba_2_16_loop fs m l) k
     = (case m k of Some g \<Rightarrow> Some g | None \<Rightarrow> find (\<lambda>y. fact_key y = k) fs)"
proof (induction fs arbitrary: m l)
  case Nil
  show ?case by (simp split: option.splits)
next
  case (Cons f fs)
  show ?case
  proof (cases "m (fact_key f)")
    case None
    then show ?thesis
      by (simp only: eba_2_16_loop_Cons_new Cons.IH) (auto split: option.splits)
  next
    case (Some g)
    show ?thesis
    proof (cases "g = f")
      case True
      then show ?thesis
        using Some by (simp only: eba_2_16_loop_Cons_same Cons.IH) (auto split: option.splits)
    next
      case False
      then show ?thesis
        using Some eba_2_16_loop_Cons_other [of m f g fs l, OF Some False]
        by (simp only: Cons.IH) (auto split: option.splits)
    qed
  qed
qed

text \<open>
  The findings of the loop about the key \<open>k\<close>, from any state of the dictionary: every
  fact with that key, other than the stored one, is reported against the stored one.
\<close>

lemma eba_2_16_loop_findings:
  assumes "\<forall>f\<in>set fs. fact_concept f = c"
  shows "\<exists>found. snd (eba_2_16_loop fs m l) = l @ found
     \<and> filter (fact_finding_of c k) found
         = (case m k of
              Some g \<Rightarrow> map (\<lambda>x. expected_fact_finding x g) (filter (\<lambda>y. fact_key y = k \<and> y \<noteq> g) fs)
            | None \<Rightarrow> map (\<lambda>x. expected_fact_finding x (hd (filter (\<lambda>y. fact_key y = k) fs)))
                       (filter (\<lambda>y. y \<noteq> hd (filter (\<lambda>y. fact_key y = k) fs))
                          (tl (filter (\<lambda>y. fact_key y = k) fs))))
     \<and> (\<forall>c'. c' \<noteq> c \<longrightarrow> filter (fact_finding_of c' k) found = [])"
  using assms
proof (induction fs arbitrary: m l)
  case Nil
  show ?case by (simp split: option.splits)
next
  case (Cons f fs)
  have fc: "fact_concept f = c" and rest: "\<forall>f\<in>set fs. fact_concept f = c"
    using Cons.prems by simp_all
  show ?case
  proof (cases "m (fact_key f)")
    case None
    obtain found where run: "snd (eba_2_16_loop fs (m(fact_key f \<mapsto> f)) l) = l @ found"
      and filt: "filter (fact_finding_of c k) found
         = (case (m(fact_key f \<mapsto> f)) k of
              Some g \<Rightarrow> map (\<lambda>x. expected_fact_finding x g) (filter (\<lambda>y. fact_key y = k \<and> y \<noteq> g) fs)
            | None \<Rightarrow> map (\<lambda>x. expected_fact_finding x (hd (filter (\<lambda>y. fact_key y = k) fs)))
                       (filter (\<lambda>y. y \<noteq> hd (filter (\<lambda>y. fact_key y = k) fs))
                          (tl (filter (\<lambda>y. fact_key y = k) fs))))"
      and others: "\<forall>c'. c' \<noteq> c \<longrightarrow> filter (fact_finding_of c' k) found = []"
      using Cons.IH [OF rest, of "m(fact_key f \<mapsto> f)" l] by blast
    have "filter (fact_finding_of c k) found
         = (case m k of
              Some g \<Rightarrow> map (\<lambda>x. expected_fact_finding x g) (filter (\<lambda>y. fact_key y = k \<and> y \<noteq> g) (f # fs))
            | None \<Rightarrow> map (\<lambda>x. expected_fact_finding x (hd (filter (\<lambda>y. fact_key y = k) (f # fs))))
                       (filter (\<lambda>y. y \<noteq> hd (filter (\<lambda>y. fact_key y = k) (f # fs)))
                          (tl (filter (\<lambda>y. fact_key y = k) (f # fs)))))"
      using filt None by (cases "fact_key f = k") (auto split: option.splits)
    then show ?thesis
      using run others by (simp only: eba_2_16_loop_Cons_new [of m f, OF None]) blast
  next
    case (Some g)
    show ?thesis
    proof (cases "g = f")
      case True
      obtain found where run: "snd (eba_2_16_loop fs m l) = l @ found"
        and filt: "filter (fact_finding_of c k) found
           = (case m k of
                Some g \<Rightarrow> map (\<lambda>x. expected_fact_finding x g) (filter (\<lambda>y. fact_key y = k \<and> y \<noteq> g) fs)
              | None \<Rightarrow> map (\<lambda>x. expected_fact_finding x (hd (filter (\<lambda>y. fact_key y = k) fs)))
                         (filter (\<lambda>y. y \<noteq> hd (filter (\<lambda>y. fact_key y = k) fs))
                            (tl (filter (\<lambda>y. fact_key y = k) fs))))"
        and others: "\<forall>c'. c' \<noteq> c \<longrightarrow> filter (fact_finding_of c' k) found = []"
        using Cons.IH [OF rest, of m l] by blast
      have same: "m (fact_key f) = Some f"
        using Some True by simp
      have "filter (fact_finding_of c k) found
           = (case m k of
                Some g \<Rightarrow> map (\<lambda>x. expected_fact_finding x g) (filter (\<lambda>y. fact_key y = k \<and> y \<noteq> g) (f # fs))
              | None \<Rightarrow> map (\<lambda>x. expected_fact_finding x (hd (filter (\<lambda>y. fact_key y = k) (f # fs))))
                         (filter (\<lambda>y. y \<noteq> hd (filter (\<lambda>y. fact_key y = k) (f # fs)))
                            (tl (filter (\<lambda>y. fact_key y = k) (f # fs)))))"
        using filt same by (cases "fact_key f = k") (auto split: option.splits)
      then show ?thesis
        using run others by (simp only: eba_2_16_loop_Cons_same [of m f, OF same]) blast
    next
      case False
      let ?e = "expected_fact_finding f g"
      obtain found where run: "snd (eba_2_16_loop fs m (l @ [?e])) = (l @ [?e]) @ found"
        and filt: "filter (fact_finding_of c k) found
           = (case m k of
                Some g \<Rightarrow> map (\<lambda>x. expected_fact_finding x g) (filter (\<lambda>y. fact_key y = k \<and> y \<noteq> g) fs)
              | None \<Rightarrow> map (\<lambda>x. expected_fact_finding x (hd (filter (\<lambda>y. fact_key y = k) fs)))
                         (filter (\<lambda>y. y \<noteq> hd (filter (\<lambda>y. fact_key y = k) fs))
                            (tl (filter (\<lambda>y. fact_key y = k) fs))))"
        and others: "\<forall>c'. c' \<noteq> c \<longrightarrow> filter (fact_finding_of c' k) found = []"
        using Cons.IH [OF rest, of m "l @ [?e]"] by blast
      have "filter (fact_finding_of c k) (?e # found)
           = (case m k of
                Some g \<Rightarrow> map (\<lambda>x. expected_fact_finding x g) (filter (\<lambda>y. fact_key y = k \<and> y \<noteq> g) (f # fs))
              | None \<Rightarrow> map (\<lambda>x. expected_fact_finding x (hd (filter (\<lambda>y. fact_key y = k) (f # fs))))
                         (filter (\<lambda>y. y \<noteq> hd (filter (\<lambda>y. fact_key y = k) (f # fs)))
                            (tl (filter (\<lambda>y. fact_key y = k) (f # fs)))))"
        using filt Some False fc
        by (cases "fact_key f = k") (auto simp: fact_finding_of_expected split: option.splits)
      moreover have "\<forall>c'. c' \<noteq> c \<longrightarrow> filter (fact_finding_of c' k) (?e # found) = []"
        using others fc by (simp add: fact_finding_of_expected)
      moreover have "snd (eba_2_16_loop (f # fs) m l) = l @ (?e # found)"
        using run
        by (simp only: eba_2_16_loop_Cons_other [of m f g fs l, OF Some False]
              append_assoc append_Cons append_Nil)
      ultimately show ?thesis by blast
    qed
  qed
qed

lemma facts_filter_concept_concept: "\<forall>f\<in>set (facts_filter_concept inst c). fact_concept f = c"
  by (simp add: facts_filter_concept_def)

text \<open>One round of the outer loop of \<^verbatim>\<open>eba_2_16\<close>, for the concept \<open>c1\<close>.\<close>

lemma eba_2_16_concept_findings:
  "\<exists>found.
     (if eba_2_16_checked c1 then snd (eba_2_16_loop (facts_filter_concept inst c1) Map.empty l) else l)
       = l @ found
     \<and> filter (fact_finding_of c k) found
         = (if c1 = c \<and> eba_2_16_checked c
            then map (\<lambda>x. expected_fact_finding x (hd (facts_with inst c k)))
                   (filter (\<lambda>y. y \<noteq> hd (facts_with inst c k)) (tl (facts_with inst c k)))
            else [])"
proof (cases "eba_2_16_checked c1")
  case False
  then show ?thesis by auto
next
  case True
  obtain found where run: "snd (eba_2_16_loop (facts_filter_concept inst c1) Map.empty l) = l @ found"
    and filt: "filter (fact_finding_of c1 k) found
         = map (\<lambda>x. expected_fact_finding x (hd (facts_with inst c1 k)))
             (filter (\<lambda>y. y \<noteq> hd (facts_with inst c1 k)) (tl (facts_with inst c1 k)))"
    and others: "\<forall>c'. c' \<noteq> c1 \<longrightarrow> filter (fact_finding_of c' k) found = []"
    using eba_2_16_loop_findings [OF facts_filter_concept_concept, of inst c1 Map.empty l k]
    by (auto simp: facts_with_def)
  show ?thesis
  proof (cases "c1 = c")
    case True
    then show ?thesis
      using run filt \<open>eba_2_16_checked c1\<close> by auto
  next
    case False
    then have "c \<noteq> c1"
      by simp
    then have "filter (fact_finding_of c k) found = []"
      using others by simp
    then show ?thesis
      using run False \<open>eba_2_16_checked c1\<close> by auto
  qed
qed

lemma eba_2_16_fold_findings:
  assumes "distinct cs"
  shows "\<exists>found.
     fold (\<lambda>c error_log.
             if eba_2_16_checked c
             then snd (eba_2_16_loop (facts_filter_concept inst c) Map.empty error_log)
             else error_log) cs l
       = l @ found
     \<and> filter (fact_finding_of c k) found
         = (if c \<in> set cs \<and> eba_2_16_checked c
            then map (\<lambda>x. expected_fact_finding x (hd (facts_with inst c k)))
                   (filter (\<lambda>y. y \<noteq> hd (facts_with inst c k)) (tl (facts_with inst c k)))
            else [])"
  using assms
proof (induction cs arbitrary: l)
  case Nil
  show ?case by simp
next
  case (Cons c1 cs)
  let ?step = "\<lambda>c error_log.
             if eba_2_16_checked c
             then snd (eba_2_16_loop (facts_filter_concept inst c) Map.empty error_log)
             else error_log"
  let ?E = "map (\<lambda>x. expected_fact_finding x (hd (facts_with inst c k)))
              (filter (\<lambda>y. y \<noteq> hd (facts_with inst c k)) (tl (facts_with inst c k)))"
  obtain found1 where run1: "?step c1 l = l @ found1"
    and filt1: "filter (fact_finding_of c k) found1 = (if c1 = c \<and> eba_2_16_checked c then ?E else [])"
    using eba_2_16_concept_findings [of c1 inst l c k] by blast
  have d: "distinct cs" and notin: "c1 \<notin> set cs"
    using Cons.prems by simp_all
  obtain found2 where run2: "fold ?step cs (l @ found1) = (l @ found1) @ found2"
    and filt2: "filter (fact_finding_of c k) found2
                  = (if c \<in> set cs \<and> eba_2_16_checked c then ?E else [])"
    using Cons.IH [OF d, of "l @ found1"] by blast
  have "fold ?step (c1 # cs) l = l @ (found1 @ found2)"
    using run1 run2 by simp
  moreover have "filter (fact_finding_of c k) (found1 @ found2)
                  = (if c \<in> set (c1 # cs) \<and> eba_2_16_checked c then ?E else [])"
    using filt1 filt2 notin by auto
  ultimately show ?case by blast
qed

lemma filter_not_hd_tl:
  assumes "distinct xs"
  shows "filter (\<lambda>y. y \<noteq> hd xs) (tl xs) = tl xs"
  using assms by (cases xs) (auto simp: filter_id_conv)

lemma eba_2_16_findings:
  assumes "distinct (facts inst)" and "eba_2_16_checked c"
  shows "\<exists>found. eba_2_16 inst l = Inr (l @ found)
     \<and> filter (fact_finding_of c k) found
         = map (\<lambda>x. expected_fact_finding x (hd (facts_with inst c k))) (tl (facts_with inst c k))"
proof -
  let ?E = "map (\<lambda>x. expected_fact_finding x (hd (facts_with inst c k))) (tl (facts_with inst c k))"
  obtain found where run: "eba_2_16 inst l = Inr (l @ found)"
    and filt: "filter (fact_finding_of c k) found
         = (if c \<in> set (concept_aspect_values inst) \<and> eba_2_16_checked c
            then map (\<lambda>x. expected_fact_finding x (hd (facts_with inst c k)))
                   (filter (\<lambda>y. y \<noteq> hd (facts_with inst c k)) (tl (facts_with inst c k)))
            else [])"
    using eba_2_16_fold_findings [of "concept_aspect_values inst" inst l c k]
    by (auto simp: eba_2_16_def concept_aspect_values_def)
  have "distinct (facts_with inst c k)"
    using assms(1) by (simp add: facts_with_def facts_filter_concept_def)
  then have tl: "filter (\<lambda>y. y \<noteq> hd (facts_with inst c k)) (tl (facts_with inst c k))
                  = tl (facts_with inst c k)"
    by (rule filter_not_hd_tl)
  have "filter (fact_finding_of c k) found = ?E"
  proof (cases "c \<in> set (concept_aspect_values inst)")
    case True
    then show ?thesis using filt tl assms(2) by simp
  next
    case False
    then have "facts_with inst c k = []"
      by (auto simp: facts_with_def facts_filter_concept_def concept_aspect_values_def
            filter_empty_conv)
    then show ?thesis using filt False by simp
  qed
  then show ?thesis using run by blast
qed

lemma duplicate_fact_error_not_multi_unit:
  "duplicate_fact_error f g \<noteq> multi_unit_fact_error f' g'"
  by (simp add: duplicate_fact_error_def multi_unit_fact_error_def msg_EBA_2_16_def msg_EBA_2_16_1_def)

text \<open>
  C2. Let \<open>c\<close> be an item concept other than the filing indicator, in an instance whose
  facts are distinct nodes. The duplicate-fact check returns normally, and among the
  findings it appends, those about the facts of \<open>c\<close> with context and language \<open>k\<close>
  are exactly one per fact of that group after the first, in document order: the
  EBA 2.16 finding when the fact's unit is that of the first fact of the group, the
  EBA 2.16.1 finding when the units differ. The two findings are never the same
  finding, so no fact gets both.
\<close>

theorem duplicate_fact_findings:
  assumes "distinct (facts inst)"
    and "concept_is_item c"
    and "concept_qname c \<noteq> QName ''filingIndicator'' ''http://www.eurofiling.info/xbrl/ext/filing-indicators''"
  shows "(\<exists>found. eba_2_16 inst l = Inr (l @ found)
           \<and> filter (fact_finding_of c k) found
               = map (\<lambda>x. expected_fact_finding x (hd (facts_with inst c k))) (tl (facts_with inst c k))
           \<and> length (filter (fact_finding_of c k) found) = length (facts_with inst c k) - 1)
         \<and> duplicate_fact_error f g \<noteq> multi_unit_fact_error f' g'"
proof -
  have "eba_2_16_checked c"
    using assms(2,3) by (auto simp: eba_2_16_checked_def concept_qname_def QName_def)
  then obtain found where "eba_2_16 inst l = Inr (l @ found)"
    and "filter (fact_finding_of c k) found
           = map (\<lambda>x. expected_fact_finding x (hd (facts_with inst c k))) (tl (facts_with inst c k))"
    using eba_2_16_findings [OF assms(1), of c l k] by blast
  then have "\<exists>found. eba_2_16 inst l = Inr (l @ found)
           \<and> filter (fact_finding_of c k) found
               = map (\<lambda>x. expected_fact_finding x (hd (facts_with inst c k))) (tl (facts_with inst c k))
           \<and> length (filter (fact_finding_of c k) found) = length (facts_with inst c k) - 1"
    by (intro exI [of _ found]) simp
  then show ?thesis
    using duplicate_fact_error_not_multi_unit by blast
qed

lemma example_facts_differ:
  "example_fact 12 (example_unit 8 ''USD'') \<noteq> example_fact 11 (example_unit 7 ''EUR'')"
  "example_fact 13 (example_unit 8 ''USD'') \<noteq> example_fact 11 (example_unit 7 ''EUR'')"
  "example_fact 13 (example_unit 8 ''USD'') \<noteq> example_fact 12 (example_unit 8 ''USD'')"
  by (simp_all add: example_fact_def example_element_def)

lemma example_units_differ:
  "fact_unit (example_fact i (example_unit 8 ''USD'')) \<noteq> fact_unit (example_fact j (example_unit 7 ''EUR''))"
  by (simp add: example_fact_def example_unit_def)

lemma example_fact_key:
  "fact_key (example_fact i u) = (example_context 1 ''c1'' ''2020-12-31'', None)"
  by (simp add: fact_key_def example_fact_def)

lemma example_fact_concept: "fact_concept (example_fact i u) = example_concept"
  by (simp add: example_fact_def)

theorem duplicate_fact_findings_witness:
  "distinct (facts example_instance)
   \<and> concept_is_item example_concept
   \<and> concept_qname example_concept
       \<noteq> QName ''filingIndicator'' ''http://www.eurofiling.info/xbrl/ext/filing-indicators''
   \<and> (\<exists>found. eba_2_16 example_instance [] = Inr found
         \<and> filter (fact_finding_of example_concept (example_context 1 ''c1'' ''2020-12-31'', None)) found
             = [multi_unit_fact_error (example_fact 12 (example_unit 8 ''USD''))
                  (example_fact 11 (example_unit 7 ''EUR'')),
                multi_unit_fact_error (example_fact 13 (example_unit 8 ''USD''))
                  (example_fact 11 (example_unit 7 ''EUR''))])"
proof -
  let ?k = "(example_context 1 ''c1'' ''2020-12-31'', None :: string option)"
  have d: "distinct (facts example_instance)"
    using example_facts_differ by (auto simp: example_instance_def example_facts_def)
  have i: "concept_is_item example_concept"
    by (simp add: example_concept_def)
  have q: "concept_qname example_concept
       \<noteq> QName ''filingIndicator'' ''http://www.eurofiling.info/xbrl/ext/filing-indicators''"
    by (simp add: example_concept_def concept_qname_def QName_def)
  have g: "facts_with example_instance example_concept ?k = example_facts"
    by (simp add: facts_with_def facts_filter_concept_def example_instance_def example_facts_def
          example_fact_key example_fact_concept)
  obtain found where run: "eba_2_16 example_instance [] = Inr ([] @ found)"
    and filt: "filter (fact_finding_of example_concept ?k) found
               = map (\<lambda>x. expected_fact_finding x (hd (facts_with example_instance example_concept ?k)))
                   (tl (facts_with example_instance example_concept ?k))"
    using duplicate_fact_findings [OF d i q, of "[]" ?k] by blast
  have "filter (fact_finding_of example_concept ?k) found
             = [multi_unit_fact_error (example_fact 12 (example_unit 8 ''USD''))
                  (example_fact 11 (example_unit 7 ''EUR'')),
                multi_unit_fact_error (example_fact 13 (example_unit 8 ''USD''))
                  (example_fact 11 (example_unit 7 ''EUR''))]"
    using filt unfolding g
    by (simp add: example_facts_def expected_fact_finding_def example_units_differ)
  then show ?thesis
    using d i q run by simp
qed

text \<open>
  C10. In the loop over the facts of one concept, the fact stored for a key is never
  replaced: after the loop a key that had a fact still has it, and a new key has the
  first fact of the list with this key. The findings about a key all name that first
  fact as the fact compared with. So for three facts of one key, where the third
  has the unit of the second and not that of the first, the second and the third are
  both reported as multi-unit facts against the first.
\<close>

theorem first_fact_stays_representative:
  "fst (eba_2_16_loop fs m l) k
     = (case m k of Some g \<Rightarrow> Some g | None \<Rightarrow> find (\<lambda>y. fact_key y = k) fs)
   \<and> ((\<forall>f\<in>set fs. fact_concept f = c)
        \<longrightarrow> (\<exists>found. snd (eba_2_16_loop fs Map.empty l) = l @ found
               \<and> filter (fact_finding_of c k) found
                   = map (\<lambda>x. expected_fact_finding x (hd (filter (\<lambda>y. fact_key y = k) fs)))
                       (filter (\<lambda>y. y \<noteq> hd (filter (\<lambda>y. fact_key y = k) fs))
                          (tl (filter (\<lambda>y. fact_key y = k) fs)))))
   \<and> (fact_key f2 = fact_key f1 \<and> fact_key f3 = fact_key f1 \<and> f2 \<noteq> f1 \<and> f3 \<noteq> f1
        \<and> fact_unit f3 = fact_unit f2 \<and> fact_unit f2 \<noteq> fact_unit f1
        \<longrightarrow> eba_2_16_loop [f1, f2, f3] Map.empty l
              = (Map.empty(fact_key f1 \<mapsto> f1),
                 l @ [multi_unit_fact_error f2 f1, multi_unit_fact_error f3 f1]))"
proof (intro conjI impI)
  show "fst (eba_2_16_loop fs m l) k
     = (case m k of Some g \<Rightarrow> Some g | None \<Rightarrow> find (\<lambda>y. fact_key y = k) fs)"
    by (rule eba_2_16_loop_dictionary)
next
  assume "\<forall>f\<in>set fs. fact_concept f = c"
  then show "\<exists>found. snd (eba_2_16_loop fs Map.empty l) = l @ found
               \<and> filter (fact_finding_of c k) found
                   = map (\<lambda>x. expected_fact_finding x (hd (filter (\<lambda>y. fact_key y = k) fs)))
                       (filter (\<lambda>y. y \<noteq> hd (filter (\<lambda>y. fact_key y = k) fs))
                          (tl (filter (\<lambda>y. fact_key y = k) fs)))"
    using eba_2_16_loop_findings [of fs c Map.empty l k] by auto
next
  assume a: "fact_key f2 = fact_key f1 \<and> fact_key f3 = fact_key f1 \<and> f2 \<noteq> f1 \<and> f3 \<noteq> f1
        \<and> fact_unit f3 = fact_unit f2 \<and> fact_unit f2 \<noteq> fact_unit f1"
  let ?m = "Map.empty(fact_key f1 \<mapsto> f1)"
  have s1: "eba_2_16_loop [f1, f2, f3] Map.empty l = eba_2_16_loop [f2, f3] ?m l"
    by (rule eba_2_16_loop_Cons_new) simp
  have n: "f1 \<noteq> f2" "f1 \<noteq> f3"
    using a by auto
  have k: "?m (fact_key f2) = Some f1" "?m (fact_key f3) = Some f1"
    using a by simp_all
  have s2: "eba_2_16_loop [f2, f3] ?m l = eba_2_16_loop [f3] ?m (l @ [expected_fact_finding f2 f1])"
    by (rule eba_2_16_loop_Cons_other [of ?m f2 f1, OF k(1) n(1)])
  have s3: "eba_2_16_loop [f3] ?m (l @ [expected_fact_finding f2 f1])
              = eba_2_16_loop [] ?m ((l @ [expected_fact_finding f2 f1]) @ [expected_fact_finding f3 f1])"
    by (rule eba_2_16_loop_Cons_other [of ?m f3 f1, OF k(2) n(2)])
  have e: "expected_fact_finding f2 f1 = multi_unit_fact_error f2 f1"
    "expected_fact_finding f3 f1 = multi_unit_fact_error f3 f1"
    using a by (simp_all add: expected_fact_finding_def)
  have "eba_2_16_loop [f1, f2, f3] Map.empty l
          = eba_2_16_loop [] ?m ((l @ [expected_fact_finding f2 f1]) @ [expected_fact_finding f3 f1])"
    by (simp only: s1 s2 s3)
  also have "\<dots> = (?m, l @ [multi_unit_fact_error f2 f1, multi_unit_fact_error f3 f1])"
    by (simp add: e)
  finally show "eba_2_16_loop [f1, f2, f3] Map.empty l
              = (?m, l @ [multi_unit_fact_error f2 f1, multi_unit_fact_error f3 f1])" .
qed

theorem first_fact_stays_representative_witness:
  "fact_concept (example_fact 11 (example_unit 7 ''EUR'')) = example_concept
   \<and> fact_concept (example_fact 12 (example_unit 8 ''USD'')) = example_concept
   \<and> fact_concept (example_fact 13 (example_unit 8 ''USD'')) = example_concept
   \<and> fact_key (example_fact 12 (example_unit 8 ''USD'')) = fact_key (example_fact 11 (example_unit 7 ''EUR''))
   \<and> fact_key (example_fact 13 (example_unit 8 ''USD'')) = fact_key (example_fact 11 (example_unit 7 ''EUR''))
   \<and> example_fact 12 (example_unit 8 ''USD'') \<noteq> example_fact 11 (example_unit 7 ''EUR'')
   \<and> example_fact 13 (example_unit 8 ''USD'') \<noteq> example_fact 11 (example_unit 7 ''EUR'')
   \<and> fact_unit (example_fact 13 (example_unit 8 ''USD'')) = fact_unit (example_fact 12 (example_unit 8 ''USD''))
   \<and> fact_unit (example_fact 12 (example_unit 8 ''USD'')) \<noteq> fact_unit (example_fact 11 (example_unit 7 ''EUR''))
   \<and> eba_2_16_loop example_facts Map.empty []
       = (Map.empty(fact_key (example_fact 11 (example_unit 7 ''EUR'')) \<mapsto> example_fact 11 (example_unit 7 ''EUR'')),
          [multi_unit_fact_error (example_fact 12 (example_unit 8 ''USD''))
             (example_fact 11 (example_unit 7 ''EUR'')),
           multi_unit_fact_error (example_fact 13 (example_unit 8 ''USD''))
             (example_fact 11 (example_unit 7 ''EUR''))])
   \<and> (\<exists>found. snd (eba_2_16_loop example_facts Map.empty []) = found
         \<and> filter (fact_finding_of example_concept (fact_key (example_fact 11 (example_unit 7 ''EUR'')))) found
             = map (\<lambda>x. expected_fact_finding x
                          (hd (filter (\<lambda>y. fact_key y = fact_key (example_fact 11 (example_unit 7 ''EUR'')))
                                 example_facts)))
                 (filter (\<lambda>y. y \<noteq> hd (filter (\<lambda>y. fact_key y = fact_key (example_fact 11 (example_unit 7 ''EUR'')))
                                          example_facts))
                    (tl (filter (\<lambda>y. fact_key y = fact_key (example_fact 11 (example_unit 7 ''EUR'')))
                           example_facts))))"
proof -
  let ?f1 = "example_fact 11 (example_unit 7 ''EUR'')"
  let ?f2 = "example_fact 12 (example_unit 8 ''USD'')"
  let ?f3 = "example_fact 13 (example_unit 8 ''USD'')"
  have c: "\<forall>f\<in>set example_facts. fact_concept f = example_concept"
    by (simp add: example_facts_def example_fact_concept)
  have h: "fact_key ?f2 = fact_key ?f1 \<and> fact_key ?f3 = fact_key ?f1 \<and> ?f2 \<noteq> ?f1 \<and> ?f3 \<noteq> ?f1
        \<and> fact_unit ?f3 = fact_unit ?f2 \<and> fact_unit ?f2 \<noteq> fact_unit ?f1"
    using example_facts_differ example_units_differ [of 12 11]
    by (simp add: example_fact_key) (simp add: example_fact_def)
  note t = first_fact_stays_representative
    [of example_facts Map.empty "[]" "fact_key ?f1" example_concept ?f2 ?f1 ?f3]
  have r: "eba_2_16_loop [?f1, ?f2, ?f3] Map.empty []
       = (Map.empty(fact_key ?f1 \<mapsto> ?f1), [] @ [multi_unit_fact_error ?f2 ?f1, multi_unit_fact_error ?f3 ?f1])"
    using t h by blast
  have g: "\<exists>found. snd (eba_2_16_loop example_facts Map.empty []) = [] @ found
         \<and> filter (fact_finding_of example_concept (fact_key ?f1)) found
             = map (\<lambda>x. expected_fact_finding x (hd (filter (\<lambda>y. fact_key y = fact_key ?f1) example_facts)))
                 (filter (\<lambda>y. y \<noteq> hd (filter (\<lambda>y. fact_key y = fact_key ?f1) example_facts))
                    (tl (filter (\<lambda>y. fact_key y = fact_key ?f1) example_facts)))"
    using t c by blast
  have c3: "fact_concept ?f1 = example_concept \<and> fact_concept ?f2 = example_concept
            \<and> fact_concept ?f3 = example_concept"
    by (simp add: example_fact_concept)
  show ?thesis
    using c3 h r g unfolding example_facts_def append_Nil by blast
qed

section \<open>The entry point\<close>

lemma size_child_less:
  assumes "e \<in> set cs"
  shows "size e < size (Error_create m loc ps cs sev)"
proof -
  have "size e \<le> size_list size cs"
    using assms by (induction cs) auto
  then show ?thesis by simp
qed

lemma error_not_own_child: "e \<in> set (error_children e) \<Longrightarrow> False"
  using size_child_less [of e "error_children e" "error_message e" "error_location e"
      "error_params e" "error_severity e"]
  by simp

text \<open>
  C5. When the host passes no instance (XBRL validation failed), the entry point
  returns normally and runs no rule: the log it leaves holds exactly one error, the
  EBA 1.9 error. Its children are its detail followed by every error the log held
  before, in order. That error is new: it is none of the errors the log held, so none of
  them is a direct entry of the log any more. Script parameters and options are
  unchanged.
\<close>

theorem on_xbrl_finished_invalid_instance:
  "\<exists>main_error.
     on_xbrl_finished job None = Inr (job\<lparr>job_error_log := [main_error]\<rparr>)
     \<and> error_message main_error = msg_EBA_1_9
     \<and> error_children main_error
         = Error_create detail_on_xbrl_finished ObjNone [] [] INFO # job_error_log job
     \<and> set (job_error_log job) \<subseteq> set (error_children main_error)
     \<and> main_error \<notin> set (job_error_log job)"
proof -
  let ?main = "Error_create msg_EBA_1_9 ObjNone []
                 (Error_create detail_on_xbrl_finished ObjNone [] [] INFO # job_error_log job) ERROR"
  have "?main \<notin> set (job_error_log job)"
    using error_not_own_child [of ?main] by auto
  moreover have "on_xbrl_finished job None = Inr (job\<lparr>job_error_log := [?main]\<rparr>)"
    by (simp add: on_xbrl_finished_def report_def)
  ultimately show ?thesis
    by (intro exI [of _ ?main]) auto
qed

section \<open>Rules that raise\<close>

lemma py_upper_utf8: "py_upper ''utf-8'' = ''UTF-8''"
  by code_simp

lemma dfs_leaf: "dfs (example_element i n) = [example_element i n]"
  by (subst dfs_unfold) (simp add: example_element_def)

lemma no_filing_indicator_facts:
  "facts_filter_qname https_ref_instance
     (QName ''filingIndicator'' ''http://www.eurofiling.info/xbrl/ext/filing-indicators'') = []"
  by (simp add: facts_filter_qname_def https_ref_instance_def example_instance_def
        example_facts_def example_fact_def example_concept_def concept_qname_def QName_def)

text \<open>
  C3, at an instance that is valid XBRL and whose only schema reference is an
  \<^verbatim>\<open>https://\<close> URL. The rules before \<^verbatim>\<open>eba_2_2\<close> report nothing; \<^verbatim>\<open>eba_2_2\<close> takes its reporting
  branch and raises \<^verbatim>\<open>NameError\<close>, and so does the dispatcher.
\<close>

theorem eba_2_2_reporting_branch_raises:
  "eba_2_2 https_ref_instance [] = Inl (NameError, [])
   \<and> check_eba_filing_rules example_job https_ref_instance = Inl (NameError, example_job)"
proof -
  have r1: "eba_1_4 https_ref_instance [] = Inr []"
    by (simp add: eba_1_4_def https_ref_instance_def example_instance_def py_upper_utf8)
  have r2: "eba_1_6 https_ref_instance [] = Inr []"
    by (simp add: eba_1_6_def no_filing_indicator_facts)
  have r3: "eba_1_13 https_ref_instance [] = Inr []"
    by (simp add: eba_1_13_def https_ref_instance_def example_instance_def)
  have r4: "eba_1_14 https_ref_instance [] = Inr []"
    by (simp add: eba_1_14_def https_ref_instance_def example_instance_def example_element_def
          find_attribute_def)
  have r5: "eba_1_15 https_ref_instance (options example_job) [] = Inr []"
    by (simp add: eba_1_15_def example_job_def py_eq_True_def)
  have r6: "eba_2_1 https_ref_instance [] = Inr []"
    by (simp add: eba_2_1_def https_ref_instance_def example_instance_def dfs_leaf)
      (simp add: example_element_def find_attribute_def)
  have r7: "eba_2_2 https_ref_instance [] = Inl (NameError, [])"
    by (simp add: eba_2_2_def https_ref_instance_def py_startswith_def)
  have "run_rules (eba_filing_rules (script_params example_job) (options example_job) https_ref_instance) []
          = Inl (NameError, [])"
    by (simp add: eba_filing_rules_def r1 r2 r3 r4 r5 r6 r7)
  then have "check_eba_filing_rules example_job https_ref_instance = Inl (NameError, example_job)"
    by (simp add: check_eba_filing_rules_def example_job_def)
  then show ?thesis
    using r7 by simp
qed

text \<open>
  C4, at an instance with no context, and at one with no schema reference: the
  single-reporter check, the period-consistency check and the schema-reference check
  raise \<^verbatim>\<open>StopIteration\<close>.
\<close>

theorem first_element_of_empty_collection_raises:
  "eba_2_9 no_context_instance [] = Inl (StopIteration, [])
   \<and> eba_2_13 no_context_instance [] = Inl (StopIteration, [])
   \<and> eba_2_2 (no_context_instance\<lparr>schema_refs := []\<rparr>) [] = Inl (StopIteration, [])"
  by (simp add: eba_2_9_def eba_2_13_def eba_2_2_def no_context_instance_def)

theorem first_element_of_empty_collection_raises_witness:
  "raised (eba_2_9 no_context_instance []) = Some StopIteration
   \<and> raised (eba_2_13 no_context_instance []) = Some StopIteration
   \<and> raised (eba_2_2 (no_context_instance\<lparr>schema_refs := []\<rparr>) []) = Some StopIteration
   \<and> result_state (eba_2_9 no_context_instance []) = []
   \<and> result_state (eba_2_13 no_context_instance []) = []"
  using first_element_of_empty_collection_raises
  by (simp add: raised_def result_state_def)

section \<open>The length limits\<close>

text \<open>
  \<^verbatim>\<open>int\<close> on some strings: plain digits, letters, signs and underscores, blanks, the
  separator 0x1C (a space for \<^verbatim>\<open>str.isspace\<close>, not for \<^verbatim>\<open>int\<close>), NUL and DEL, and
  outside ASCII the no-break space, the ideographic space, Arabic-Indic digits, the
  superscript two (a digit, not a decimal digit) and U+180E (no space since Unicode 6.3).
\<close>

lemma py_int_examples:
  "py_int (ascii ''50'') = Inr 50"
  "py_int (ascii ''100'') = Inr 100"
  "py_int (ascii ''abc'') = Inl ValueError"
  "py_int (ascii '' -1_0 '') = Inr (- 10)"
  "py_int (ascii ''1__0'') = Inl ValueError"
  "py_int (ascii ''+ 5'') = Inl ValueError"
  "py_int [0x1C, 53, 48 :: nat] = Inl ValueError"
  "py_int [] = Inl ValueError"
  "py_int (ascii ''-'') = Inl ValueError"
  "py_int (ascii ''_5'') = Inl ValueError"
  "py_int (ascii ''5_'') = Inl ValueError"
  "py_int (ascii ''0_5'') = Inr 5"
  "py_int (ascii '' 5 5'') = Inl ValueError"
  "py_int [53, 0 :: nat] = Inl ValueError"
  "py_int (ascii ''+007'') = Inr 7"
  "py_int [9, 10, 11, 12, 13, 32, 52, 9 :: nat] = Inr 4"
  "py_int (ascii ''+-5'') = Inl ValueError"
  by (simp_all add: ascii_def py_int_def to_ascii_def c_isspace_def ascii_digit_def
        int_max_str_digits_def)

lemma py_int_unicode_examples:
  "py_int [0xA0, 53, 48, 0x85 :: nat] = Inr 50"
  "py_int [0x0665, 0x0660 :: nat] = Inr 50"
  "py_int [0xB2 :: nat] = Inl ValueError"
  "py_int [127, 53 :: nat] = Inl ValueError"
  "py_int [0x0665, 95, 0x0660 :: nat] = Inr 50"
  "py_int [53, 0x3000 :: nat] = Inr 5"
  "py_int [0x180E, 53 :: nat] = Inl ValueError"
  by (simp_all add: py_int_def to_ascii_def c_isspace_def ascii_digit_def int_max_str_digits_def
        unicode_spaces_def unicode_todecimal_def unicode_decimal_zeros_def)

lemma fold_report_filter:
  "fold (\<lambda>x error_log. if P x then report error_log (e x) else error_log) xs l
     = l @ map e (filter P xs)"
  by (induction xs arbitrary: l) (simp_all add: report_def)

lemma eba_2_6_limit:
  assumes "int_param params ''max-id-length'' 50 = Inr n"
  shows "eba_2_6 inst params l = Inr (l @ map id_length_error (filter (id_exceeds n) (contexts inst)))"
proof -
  have "fold (\<lambda>ctx error_log.
               if int (length (context_id ctx)) > n then report error_log (id_length_error ctx)
               else error_log) (contexts inst) l
          = fold (\<lambda>ctx error_log.
               if id_exceeds n ctx then report error_log (id_length_error ctx) else error_log)
              (contexts inst) l"
    by (simp add: id_exceeds_def)
  then show ?thesis
    using assms by (simp add: eba_2_6_def fold_report_filter)
qed

lemma eba_3_8_limit:
  assumes "int_param params ''max-string-length'' 100 = Inr n"
  shows "eba_3_8 inst params l
           = Inr (l @ map string_length_error (filter (string_exceeds n) (child_items inst)))"
proof -
  have "(\<lambda>fct error_log.
           case elem_schema_actual_value (fact_element fct) of
             XsdString v \<Rightarrow>
               if int (length v) > n then report error_log (string_length_error fct) else error_log
           | _ \<Rightarrow> error_log)
        = (\<lambda>fct error_log.
             if string_exceeds n fct then report error_log (string_length_error fct) else error_log)"
    by (auto simp: string_exceeds_def fun_eq_iff split: schema_value.splits)
  then show ?thesis
    using assms by (simp add: eba_3_8_def fold_report_filter)
qed

lemma limit_instance_exceeding:
  "filter (id_exceeds 50) (contexts limit_instance) = [limit_context 23 (replicate 51 97)]"
  "filter (string_exceeds 100) (child_items limit_instance) = [string_fact 32 (replicate 101 97)]"
  by (simp_all add: limit_instance_def id_exceeds_def string_exceeds_def limit_context_def
        string_fact_def)

theorem non_numeric_limit_counterexample:
  "eba_2_6 limit_instance [''max-id-length'' \<mapsto> ascii ''abc''] [] = Inl (ValueError, [])
   \<and> eba_2_6 limit_instance [''max-id-length'' \<mapsto> ascii ''50''] []
       = Inr [id_length_error (limit_context 23 (replicate 51 97))]
   \<and> eba_3_8 limit_instance [''max-string-length'' \<mapsto> ascii ''abc''] [] = Inl (ValueError, [])
   \<and> eba_3_8 limit_instance [''max-string-length'' \<mapsto> ascii ''100''] []
       = Inr [string_length_error (string_fact 32 (replicate 101 97))]"
proof -
  have "eba_2_6 limit_instance [''max-id-length'' \<mapsto> ascii ''abc''] [] = Inl (ValueError, [])"
    by (simp add: eba_2_6_def int_param_def py_int_examples)
  moreover have "eba_3_8 limit_instance [''max-string-length'' \<mapsto> ascii ''abc''] [] = Inl (ValueError, [])"
    by (simp add: eba_3_8_def int_param_def py_int_examples)
  moreover have "eba_2_6 limit_instance [''max-id-length'' \<mapsto> ascii ''50''] []
       = Inr [id_length_error (limit_context 23 (replicate 51 97))]"
    using eba_2_6_limit [of "[''max-id-length'' \<mapsto> ascii ''50'']" 50 limit_instance "[]"]
    by (simp add: int_param_def py_int_examples limit_instance_exceeding)
  moreover have "eba_3_8 limit_instance [''max-string-length'' \<mapsto> ascii ''100''] []
       = Inr [string_length_error (string_fact 32 (replicate 101 97))]"
    using eba_3_8_limit [of "[''max-string-length'' \<mapsto> ascii ''100'']" 100 limit_instance "[]"]
    by (simp add: int_param_def py_int_examples limit_instance_exceeding)
  ultimately show ?thesis by simp
qed

text \<open>
  C8, as amended. When \<^verbatim>\<open>max-id-length\<close> is absent, the id-length check reports
  exactly the contexts whose \<^verbatim>\<open>id\<close> has more than 50 characters, as it does when the
  parameter is the string 50. When \<^verbatim>\<open>max-string-length\<close> is absent, the
  string-length check reports exactly the facts whose string value has more than 100
  characters, as it does when the parameter is the string 100. A value that \<^verbatim>\<open>int\<close>
  does not accept makes the check raise \<^verbatim>\<open>ValueError\<close> with nothing reported:
  there is no fallback to the default.
\<close>

theorem length_limits_default_when_absent:
  "(params ''max-id-length'' = None
      \<longrightarrow> eba_2_6 inst params l
            = Inr (l @ map id_length_error (filter (id_exceeds 50) (contexts inst)))
          \<and> eba_2_6 inst params l = eba_2_6 inst (params(''max-id-length'' \<mapsto> ascii ''50'')) l)
   \<and> (params ''max-string-length'' = None
      \<longrightarrow> eba_3_8 inst params l
            = Inr (l @ map string_length_error (filter (string_exceeds 100) (child_items inst)))
          \<and> eba_3_8 inst params l = eba_3_8 inst (params(''max-string-length'' \<mapsto> ascii ''100'')) l)
   \<and> (params ''max-id-length'' = Some s \<and> py_int s = Inl ValueError
      \<longrightarrow> eba_2_6 inst params l = Inl (ValueError, l))
   \<and> (params ''max-string-length'' = Some s \<and> py_int s = Inl ValueError
      \<longrightarrow> eba_3_8 inst params l = Inl (ValueError, l))"
proof (intro conjI impI)
  assume a: "params ''max-id-length'' = None"
  then show "eba_2_6 inst params l
            = Inr (l @ map id_length_error (filter (id_exceeds 50) (contexts inst)))"
    by (intro eba_2_6_limit) (simp add: int_param_def)
  show "eba_2_6 inst params l = eba_2_6 inst (params(''max-id-length'' \<mapsto> ascii ''50'')) l"
    using a by (simp add: eba_2_6_def int_param_def py_int_examples)
next
  assume a: "params ''max-string-length'' = None"
  then show "eba_3_8 inst params l
            = Inr (l @ map string_length_error (filter (string_exceeds 100) (child_items inst)))"
    by (intro eba_3_8_limit) (simp add: int_param_def)
  show "eba_3_8 inst params l = eba_3_8 inst (params(''max-string-length'' \<mapsto> ascii ''100'')) l"
    using a by (simp add: eba_3_8_def int_param_def py_int_examples)
next
  assume "params ''max-id-length'' = Some s \<and> py_int s = Inl ValueError"
  then show "eba_2_6 inst params l = Inl (ValueError, l)"
    by (simp add: eba_2_6_def int_param_def)
next
  assume "params ''max-string-length'' = Some s \<and> py_int s = Inl ValueError"
  then show "eba_3_8 inst params l = Inl (ValueError, l)"
    by (simp add: eba_3_8_def int_param_def)
qed

theorem length_limits_default_when_absent_witness:
  "(Map.empty :: string \<rightharpoonup> py_str) ''max-id-length'' = None
   \<and> (Map.empty :: string \<rightharpoonup> py_str) ''max-string-length'' = None
   \<and> eba_2_6 limit_instance Map.empty [] = Inr [id_length_error (limit_context 23 (replicate 51 97))]
   \<and> eba_3_8 limit_instance Map.empty [] = Inr [string_length_error (string_fact 32 (replicate 101 97))]
   \<and> [''max-id-length'' \<mapsto> [0x1C, 53, 48 :: nat], ''max-string-length'' \<mapsto> [0x1C, 53, 48 :: nat]] ''max-id-length''
       = Some [0x1C, 53, 48 :: nat]
   \<and> [''max-id-length'' \<mapsto> [0x1C, 53, 48 :: nat], ''max-string-length'' \<mapsto> [0x1C, 53, 48 :: nat]] ''max-string-length''
       = Some [0x1C, 53, 48 :: nat]
   \<and> py_int [0x1C, 53, 48 :: nat] = Inl ValueError
   \<and> eba_2_6 limit_instance
         [''max-id-length'' \<mapsto> [0x1C, 53, 48 :: nat], ''max-string-length'' \<mapsto> [0x1C, 53, 48 :: nat]] []
       = Inl (ValueError, [])
   \<and> eba_3_8 limit_instance
         [''max-id-length'' \<mapsto> [0x1C, 53, 48 :: nat], ''max-string-length'' \<mapsto> [0x1C, 53, 48 :: nat]] []
       = Inl (ValueError, [])"
proof -
  let ?p = "[''max-id-length'' \<mapsto> [0x1C, 53, 48 :: nat], ''max-string-length'' \<mapsto> [0x1C, 53, 48 :: nat]]"
  have a: "(Map.empty :: string \<rightharpoonup> py_str) ''max-id-length'' = None"
    "(Map.empty :: string \<rightharpoonup> py_str) ''max-string-length'' = None"
    by simp_all
  have b: "?p ''max-id-length'' = Some [0x1C, 53, 48 :: nat]" "?p ''max-string-length'' = Some [0x1C, 53, 48 :: nat]"
    by simp_all
  have v: "py_int [0x1C, 53, 48 :: nat] = Inl ValueError"
    by (rule py_int_examples(7))
  note absent = length_limits_default_when_absent [of Map.empty limit_instance "[]" "[0x1C, 53, 48 :: nat]"]
  note given = length_limits_default_when_absent [of ?p limit_instance "[]" "[0x1C, 53, 48 :: nat]"]
  have "eba_2_6 limit_instance Map.empty []
          = Inr ([] @ map id_length_error (filter (id_exceeds 50) (contexts limit_instance)))"
    using absent a by blast
  then have r1: "eba_2_6 limit_instance Map.empty [] = Inr [id_length_error (limit_context 23 (replicate 51 97))]"
    by (simp add: limit_instance_exceeding)
  have "eba_3_8 limit_instance Map.empty []
          = Inr ([] @ map string_length_error (filter (string_exceeds 100) (child_items limit_instance)))"
    using absent a by blast
  then have r2: "eba_3_8 limit_instance Map.empty [] = Inr [string_length_error (string_fact 32 (replicate 101 97))]"
    by (simp add: limit_instance_exceeding)
  have r3: "eba_2_6 limit_instance ?p [] = Inl (ValueError, [])"
    using given b v by blast
  have r4: "eba_3_8 limit_instance ?p [] = Inl (ValueError, [])"
    using given b v by blast
  show ?thesis
    using a b v r1 r2 r3 r4 by blast
qed

section \<open>The XInclude rule\<close>

theorem xinclude_counterexample:
  "xinclude_occurrences example_instance = 0
   \<and> py_eq_True ([''xinclude'' \<mapsto> PyBool True] ''xinclude'')
   \<and> length (result_state (eba_1_15 example_instance [''xinclude'' \<mapsto> PyBool True] [])) = 1"
  by (simp add: xinclude_occurrences_def example_instance_def example_element_def
        eba_1_15_def py_eq_True_def result_state_def report_def)

text \<open>
  C9, as amended. When the host's \<^verbatim>\<open>xinclude\<close> option is on, the rule appends exactly
  one finding, the EBA 1.15 error located at the instance's URI, whatever the document
  holds; when the option is not on it appends none.
\<close>

theorem xinclude_one_finding_for_the_option:
  "(py_eq_True (opts ''xinclude'')
      \<longrightarrow> (\<exists>e. eba_1_15 inst opts l = Inr (l @ [e])
               \<and> error_message e = msg_EBA_1_15
               \<and> error_location e = ObjStr (uri inst)))
   \<and> (\<not> py_eq_True (opts ''xinclude'') \<longrightarrow> eba_1_15 inst opts l = Inr l)"
  by (simp add: eba_1_15_def report_def)

theorem xinclude_one_finding_for_the_option_witness:
  "py_eq_True ([''xinclude'' \<mapsto> PyBool True] ''xinclude'')
   \<and> (\<exists>e. eba_1_15 example_instance [''xinclude'' \<mapsto> PyBool True] [] = Inr [e]
          \<and> error_message e = msg_EBA_1_15
          \<and> error_location e = ObjStr (uri example_instance))
   \<and> \<not> py_eq_True (Map.empty ''xinclude'')
   \<and> eba_1_15 example_instance Map.empty [] = Inr []"
proof -
  have a: "py_eq_True ([''xinclude'' \<mapsto> PyBool True] ''xinclude'')"
    by (simp add: py_eq_True_def)
  have b: "\<not> py_eq_True (Map.empty ''xinclude'')"
    by (simp add: py_eq_True_def)
  note on = xinclude_one_finding_for_the_option [of "[''xinclude'' \<mapsto> PyBool True]" example_instance "[]"]
  note off = xinclude_one_finding_for_the_option [of Map.empty example_instance "[]"]
  have "\<exists>e. eba_1_15 example_instance [''xinclude'' \<mapsto> PyBool True] [] = Inr ([] @ [e])
          \<and> error_message e = msg_EBA_1_15
          \<and> error_location e = ObjStr (uri example_instance)"
    using on a by blast
  moreover have "eba_1_15 example_instance Map.empty [] = Inr []"
    using off b by blast
  ultimately show ?thesis
    using a b by simp
qed

end
